theory Spec2Isabelle
  imports Main "HOL-Library.Word" "HOL-Library.AList" "HOL-Library.List_Lexorder"
begin

text \<open>
  The pet adoption canister of \<^verbatim>\<open>src/dfinity_js_backend/src/index.ts\<close>: users, pets,
  shelters and adoption records in four stable maps, and the methods that read and
  update them. Each method is a function from the state of the four maps (and from what
  the call reads from its environment) to a reply and a new state; the claims about the
  methods are proved of these functions.
\<close>

section \<open>Strings\<close>

text \<open>
  A JavaScript string is a sequence of UTF-16 code units. Candid \<open>text\<close> values arrive in
  the canister as such strings, so every \<open>text\<close> field is a list of 16-bit words.
  \<open>ascii\<close> writes a string literal of the source (all of them are ASCII).
\<close>

type_synonym jsstring = "16 word list"

definition ascii :: "string \<Rightarrow> jsstring" where
  "ascii s = map (\<lambda>c. of_nat (of_char c)) s"

text \<open>
  The code units that \<open>String.prototype.trim\<close> strips and that \<open>\s\<close> matches in a
  regular expression: ECMAScript WhiteSpace and LineTerminator.
\<close>

definition isWhiteSpace :: "16 word \<Rightarrow> bool" where
  "isWhiteSpace c \<longleftrightarrow>
     c = 0x0009 \<or> c = 0x000A \<or> c = 0x000B \<or> c = 0x000C \<or> c = 0x000D \<or> c = 0x0020 \<or>
     c = 0x00A0 \<or> c = 0x1680 \<or> (0x2000 \<le> c \<and> c \<le> 0x200A) \<or> c = 0x2028 \<or>
     c = 0x2029 \<or> c = 0x202F \<or> c = 0x205F \<or> c = 0x3000 \<or> c = 0xFEFF"

definition trim :: "jsstring \<Rightarrow> jsstring" where
  "trim s = rev (dropWhile isWhiteSpace (rev (dropWhile isWhiteSpace s)))"

subsection \<open>The two regular expressions of the validation helpers\<close>

text \<open>
  Only the constructs that the two patterns use: a literal code unit, a character class
  repeated one or more times (\<open>[...]+\<close>), a class repeated between \<open>lo\<close> and \<open>hi\<close> times
  (\<open>[...]{lo,hi}\<close>) and concatenation. \<open>remainders r s\<close> lists what is left of \<open>s\<close> after
  each way of matching \<open>r\<close> at its start; both patterns are anchored with \<open>^\<close> and \<open>$\<close>,
  so \<open>test\<close> asks for a match that leaves nothing.
\<close>

datatype regex =
    Chr "16 word"
  | OneOrMore "16 word \<Rightarrow> bool"
  | Between "16 word \<Rightarrow> bool" nat nat
  | Cat regex regex

fun remainders :: "regex \<Rightarrow> jsstring \<Rightarrow> jsstring list" where
  "remainders (Chr c) s = (case s of [] \<Rightarrow> [] | x # xs \<Rightarrow> if x = c then [xs] else [])"
| "remainders (OneOrMore p) s = map (\<lambda>k. drop k s) [1 ..< Suc (length (takeWhile p s))]"
| "remainders (Between p lo hi) s =
     map (\<lambda>k. drop k s) [lo ..< Suc (min hi (length (takeWhile p s)))]"
| "remainders (Cat r1 r2) s = concat (map (remainders r2) (remainders r1 s))"

definition test :: "regex \<Rightarrow> jsstring \<Rightarrow> bool" where
  "test r s \<longleftrightarrow> [] \<in> set (remainders r s)"

text \<open>\<open>[^\s@]\<close> and \<open>[0-9]\<close>.\<close>

definition notSpaceOrAt :: "16 word \<Rightarrow> bool" where
  "notSpaceOrAt c \<longleftrightarrow> \<not> isWhiteSpace c \<and> c \<noteq> 0x0040"

definition isDigit :: "16 word \<Rightarrow> bool" where
  "isDigit c \<longleftrightarrow> 0x0030 \<le> c \<and> c \<le> 0x0039"

text \<open>\<open>/^[^\s@]+@[^\s@]+\.[^\s@]+$/\<close>\<close>

definition emailRegex :: regex where
  "emailRegex =
     Cat (OneOrMore notSpaceOrAt)
       (Cat (Chr 0x0040)
         (Cat (OneOrMore notSpaceOrAt)
           (Cat (Chr 0x002E) (OneOrMore notSpaceOrAt))))"

text \<open>\<open>/^[0-9]{10,15}$/\<close>\<close>

definition phoneRegex :: regex where
  "phoneRegex = Between isDigit 10 15"

definition isValidEmail :: "jsstring \<Rightarrow> bool" where
  "isValidEmail email = test emailRegex email"

definition isValidPhoneNumber :: "jsstring \<Rightarrow> bool" where
  "isValidPhoneNumber phoneNumber = test phoneRegex phoneNumber"

section \<open>Records and payloads\<close>

text \<open>
  A principal is represented by its textual form (\<open>toText\<close> is injective, and the code only
  compares principals through it and prints them).
\<close>

type_synonym principal = jsstring

record User =
  id :: jsstring
  principal :: principal
  name :: jsstring
  phoneNumber :: jsstring
  email :: jsstring
  address :: jsstring
  application :: "jsstring list"

record UserPayload =
  name :: jsstring
  phoneNumber :: jsstring
  email :: jsstring
  address :: jsstring

record Pet =
  id :: jsstring
  name :: jsstring
  species :: jsstring
  breed :: jsstring
  gender :: jsstring
  age :: jsstring
  petImage :: jsstring
  description :: jsstring
  healthStatus :: jsstring
  shelterId :: jsstring
  status :: jsstring

record PetPayload =
  name :: jsstring
  species :: jsstring
  breed :: jsstring
  gender :: jsstring
  age :: jsstring
  petImage :: jsstring
  description :: jsstring
  healthStatus :: jsstring
  shelterId :: jsstring

record PetImage =
  petId :: jsstring
  petImage :: jsstring

record UpdatePetPayload =
  petId :: jsstring
  healthStatus :: jsstring
  age :: jsstring

record Shelter =
  id :: jsstring
  principal :: principal
  name :: jsstring
  location :: jsstring
  phoneNumber :: jsstring
  email :: jsstring
  pets :: "jsstring list"

record ShelterPayload =
  name :: jsstring
  location :: jsstring
  phoneNumber :: jsstring
  email :: jsstring

record UpdateShelterPayload =
  id :: jsstring
  phoneNumber :: jsstring
  email :: jsstring

record AdoptionPayload =
  petId :: jsstring
  userId :: jsstring
  userPhoneNumber :: jsstring
  address :: jsstring
  reasonForAdoption :: jsstring

record AdoptionRecords =
  adoptionId :: jsstring
  userId :: jsstring
  petId :: jsstring
  petName :: jsstring
  userName :: jsstring
  userPhoneNumber :: jsstring
  address :: jsstring
  reasonForAdoption :: jsstring
  dateOfAdoption :: jsstring
  status :: jsstring

record UpdateAdoption =
  adoptionId :: jsstring
  userName :: jsstring
  userPhoneNumber :: jsstring
  address :: jsstring
  reasonForAdoption :: jsstring

datatype Error =
    NotFound jsstring
  | InvalidPayload jsstring
  | ValidationError jsstring

datatype 'a Result = Ok 'a | Err Error

section \<open>Validation\<close>

text \<open>
  Every field has the Candid type \<open>text\<close>, so each \<open>typeof x === "string"\<close> conjunct of the
  source is true and is left out.
\<close>

definition validateUserPayload :: "UserPayload \<Rightarrow> bool" where
  "validateUserPayload payload \<longleftrightarrow>
     length (trim (UserPayload.name payload)) > 0 \<and>
     isValidPhoneNumber (UserPayload.phoneNumber payload) \<and>
     isValidEmail (UserPayload.email payload) \<and>
     length (trim (UserPayload.address payload)) > 0"

definition validatePetPayload :: "PetPayload \<Rightarrow> bool" where
  "validatePetPayload payload \<longleftrightarrow>
     length (trim (PetPayload.name payload)) > 0 \<and>
     length (trim (PetPayload.species payload)) > 0 \<and>
     length (trim (PetPayload.breed payload)) > 0 \<and>
     length (trim (PetPayload.gender payload)) > 0 \<and>
     length (trim (PetPayload.age payload)) > 0 \<and>
     length (trim (PetPayload.petImage payload)) > 0 \<and>
     length (trim (PetPayload.description payload)) > 0 \<and>
     length (trim (PetPayload.healthStatus payload)) > 0 \<and>
     length (trim (PetPayload.shelterId payload)) > 0"

definition validateShelterPayload :: "ShelterPayload \<Rightarrow> bool" where
  "validateShelterPayload payload \<longleftrightarrow>
     length (trim (ShelterPayload.name payload)) > 0 \<and>
     length (trim (ShelterPayload.location payload)) > 0 \<and>
     isValidPhoneNumber (ShelterPayload.phoneNumber payload) \<and>
     isValidEmail (ShelterPayload.email payload)"

definition validateAdoptionPayload :: "AdoptionPayload \<Rightarrow> bool" where
  "validateAdoptionPayload payload \<longleftrightarrow>
     length (trim (AdoptionPayload.petId payload)) > 0 \<and>
     length (trim (AdoptionPayload.userId payload)) > 0 \<and>
     isValidPhoneNumber (AdoptionPayload.userPhoneNumber payload) \<and>
     length (trim (AdoptionPayload.address payload)) > 0 \<and>
     length (trim (AdoptionPayload.reasonForAdoption payload)) > 0"

text \<open>
  The validators take \<open>any\<close> and read the fields they need by name. The update operations
  hand them a stored record merged with the patch; these are the fields the validators
  read from such a record.
\<close>

definition petFields :: "Pet \<Rightarrow> PetPayload" where
  "petFields pet =
     \<lparr> PetPayload.name = Pet.name pet, PetPayload.species = Pet.species pet,
       PetPayload.breed = Pet.breed pet, PetPayload.gender = Pet.gender pet,
       PetPayload.age = Pet.age pet, PetPayload.petImage = Pet.petImage pet,
       PetPayload.description = Pet.description pet,
       PetPayload.healthStatus = Pet.healthStatus pet,
       PetPayload.shelterId = Pet.shelterId pet \<rparr>"

definition shelterFields :: "Shelter \<Rightarrow> ShelterPayload" where
  "shelterFields shelter =
     \<lparr> ShelterPayload.name = Shelter.name shelter,
       ShelterPayload.location = Shelter.location shelter,
       ShelterPayload.phoneNumber = Shelter.phoneNumber shelter,
       ShelterPayload.email = Shelter.email shelter \<rparr>"

section \<open>Storage\<close>

text \<open>
  A \<open>StableBTreeMap\<close> keyed by \<open>text\<close> is a list of key/value pairs in the order of
  the keys: \<open>get\<close> looks a key up, \<open>insert\<close> replaces the value of a key that is present
  and puts a new key at its place in the order, \<open>values\<close> lists the values in the order
  of their keys. Keys are compared as lists of code units, the first difference
  deciding; the keys that the canister stores are results of \<open>uuidv4()\<close>, ASCII strings
  of one length, which the tree lists in this order.
\<close>

type_synonym 'v StableBTreeMap = "(jsstring \<times> 'v) list"

definition btree_get :: "'v StableBTreeMap \<Rightarrow> jsstring \<Rightarrow> 'v option" where
  "btree_get m k = map_of m k"

definition btree_insert :: "jsstring \<Rightarrow> 'v \<Rightarrow> 'v StableBTreeMap \<Rightarrow> 'v StableBTreeMap" where
  "btree_insert k v m =
     (if k \<in> fst ` set m then AList.update k v m else insort_key fst (k, v) m)"

definition btree_values :: "'v StableBTreeMap \<Rightarrow> 'v list" where
  "btree_values m = map snd m"

record state =
  UsersStorage :: "User StableBTreeMap"
  PetsStorage :: "Pet StableBTreeMap"
  SheltersStorage :: "Shelter StableBTreeMap"
  AdoptionsStorage :: "AdoptionRecords StableBTreeMap"

definition initial :: state where
  "initial = \<lparr> UsersStorage = [], PetsStorage = [], SheltersStorage = [],
               AdoptionsStorage = [] \<rparr>"

text \<open>
  What a call reads from outside the stores: the caller's principal (\<open>ic.caller()\<close>), the
  identifier that \<open>uuidv4()\<close> returns and the time stamp \<open>new Date().toISOString()\<close>.
\<close>

record env =
  caller :: principal
  uuid :: jsstring
  now :: jsstring

section \<open>The canister\<close>

subsection \<open>User operations\<close>

definition addUser :: "env \<Rightarrow> UserPayload \<Rightarrow> state \<Rightarrow> User Result \<times> state" where
  "addUser e payload st =
     (if \<not> validateUserPayload payload then
        (Err (ValidationError (ascii ''Invalid user payload. Please check all fields.'')), st)
      else
        let userId = uuid e;
            user = \<lparr> User.id = userId, User.principal = caller e,
                     User.name = UserPayload.name payload,
                     User.phoneNumber = UserPayload.phoneNumber payload,
                     User.email = UserPayload.email payload,
                     User.address = UserPayload.address payload,
                     application = [] \<rparr>
        in (Ok user, st\<lparr>UsersStorage := btree_insert userId user (UsersStorage st)\<rparr>))"

definition getUsers :: "state \<Rightarrow> User list" where
  "getUsers st = btree_values (UsersStorage st)"

definition getUser :: "jsstring \<Rightarrow> state \<Rightarrow> User option" where
  "getUser i st = btree_get (UsersStorage st) i"

definition getUserOwner :: "env \<Rightarrow> state \<Rightarrow> User Result" where
  "getUserOwner e st =
     (let users = filter (\<lambda>user. User.principal user = caller e)
                    (btree_values (UsersStorage st))
      in case users of
           [] \<Rightarrow> Err (NotFound (ascii ''User with principal='' @ caller e @ ascii '' not found''))
         | u # _ \<Rightarrow> Ok u)"

subsection \<open>Pet operations\<close>

definition addPet :: "env \<Rightarrow> PetPayload \<Rightarrow> state \<Rightarrow> Pet Result \<times> state" where
  "addPet e payload st =
     (if \<not> validatePetPayload payload then
        (Err (ValidationError (ascii ''Invalid pet payload. Please check all fields.'')), st)
      else
        case btree_get (SheltersStorage st) (PetPayload.shelterId payload) of
          None \<Rightarrow>
            (Err (NotFound (ascii ''Shelter with ID '' @ PetPayload.shelterId payload
                              @ ascii '' not found.'')), st)
        | Some shelter \<Rightarrow>
            let petId = uuid e;
                pet = \<lparr> Pet.id = petId, Pet.name = PetPayload.name payload,
                        Pet.species = PetPayload.species payload,
                        Pet.breed = PetPayload.breed payload,
                        Pet.gender = PetPayload.gender payload,
                        Pet.age = PetPayload.age payload,
                        Pet.petImage = PetPayload.petImage payload,
                        Pet.description = PetPayload.description payload,
                        Pet.healthStatus = PetPayload.healthStatus payload,
                        Pet.shelterId = PetPayload.shelterId payload,
                        Pet.status = ascii ''notAdopted'' \<rparr>;
                st1 = st\<lparr>PetsStorage := btree_insert petId pet (PetsStorage st)\<rparr>;
                shelter' = shelter\<lparr>pets := pets shelter @ [petId]\<rparr>
            in (Ok pet,
                st1\<lparr>SheltersStorage :=
                      btree_insert (Shelter.id shelter') shelter' (SheltersStorage st1)\<rparr>))"

definition addPetImage :: "PetImage \<Rightarrow> state \<Rightarrow> PetImage Result \<times> state" where
  "addPetImage payload st =
     (case btree_get (PetsStorage st) (PetImage.petId payload) of
        None \<Rightarrow>
          (Err (NotFound (ascii ''Pet with ID '' @ PetImage.petId payload
                            @ ascii '' not found.'')), st)
      | Some pet \<Rightarrow>
          let pet' = pet\<lparr>Pet.petImage := PetImage.petImage payload\<rparr>
          in (Ok payload, st\<lparr>PetsStorage := btree_insert (Pet.id pet') pet' (PetsStorage st)\<rparr>))"

definition getPet :: "jsstring \<Rightarrow> state \<Rightarrow> Pet option" where
  "getPet i st = btree_get (PetsStorage st) i"

definition getPets :: "state \<Rightarrow> Pet list" where
  "getPets st = btree_values (PetsStorage st)"

definition getPetsNotAdopted :: "state \<Rightarrow> Pet list" where
  "getPetsNotAdopted st =
     filter (\<lambda>pet. Pet.status pet = ascii ''notAdopted'') (btree_values (PetsStorage st))"

text \<open>
  \<open>{...pet, ...payload}\<close> overwrites \<open>healthStatus\<close> and \<open>age\<close> and adds a \<open>petId\<close> field,
  which the validator does not read and the \<open>Pet\<close> type of the store and of the reply
  does not have.
\<close>

definition updatePetInfo :: "UpdatePetPayload \<Rightarrow> state \<Rightarrow> Pet Result \<times> state" where
  "updatePetInfo payload st =
     (case btree_get (PetsStorage st) (UpdatePetPayload.petId payload) of
        None \<Rightarrow> (Err (NotFound (ascii ''Pet not found.'')), st)
      | Some pet \<Rightarrow>
          let updatedPayload = pet\<lparr>Pet.healthStatus := UpdatePetPayload.healthStatus payload,
                                   Pet.age := UpdatePetPayload.age payload\<rparr>
          in if \<not> validatePetPayload (petFields updatedPayload) then
               (Err (ValidationError (ascii ''Invalid pet payload. Please check all fields.'')), st)
             else
               let updatedPet = pet\<lparr>Pet.healthStatus := UpdatePetPayload.healthStatus payload,
                                    Pet.age := UpdatePetPayload.age payload\<rparr>
               in (Ok updatedPet,
                   st\<lparr>PetsStorage := btree_insert (Pet.id pet) updatedPet (PetsStorage st)\<rparr>))"

subsection \<open>Shelter operations\<close>

definition createShelter :: "env \<Rightarrow> ShelterPayload \<Rightarrow> state \<Rightarrow> Shelter Result \<times> state" where
  "createShelter e payload st =
     (if \<not> validateShelterPayload payload then
        (Err (ValidationError (ascii ''Invalid shelter payload. Please check all fields.'')), st)
      else
        let shelterId = uuid e;
            shelter = \<lparr> Shelter.id = shelterId, Shelter.principal = caller e,
                        Shelter.name = ShelterPayload.name payload,
                        Shelter.location = ShelterPayload.location payload,
                        Shelter.phoneNumber = ShelterPayload.phoneNumber payload,
                        Shelter.email = ShelterPayload.email payload,
                        pets = [] \<rparr>
        in (Ok shelter,
            st\<lparr>SheltersStorage := btree_insert shelterId shelter (SheltersStorage st)\<rparr>))"

definition getShelter :: "jsstring \<Rightarrow> state \<Rightarrow> Shelter option" where
  "getShelter i st = btree_get (SheltersStorage st) i"

definition getShelters :: "state \<Rightarrow> Shelter list" where
  "getShelters st = btree_values (SheltersStorage st)"

definition getShelterOwner :: "env \<Rightarrow> state \<Rightarrow> Shelter Result" where
  "getShelterOwner e st =
     (let shelters = filter (\<lambda>shelter. Shelter.principal shelter = caller e)
                       (btree_values (SheltersStorage st))
      in case shelters of
           [] \<Rightarrow> Err (NotFound (ascii ''Shelter with principal='' @ caller e
                                  @ ascii '' not found''))
         | s # _ \<Rightarrow> Ok s)"

text \<open>\<open>{...shelter, ...payload}\<close> overwrites \<open>id\<close>, \<open>phoneNumber\<close> and \<open>email\<close>.\<close>

definition updateShelterInfo ::
  "UpdateShelterPayload \<Rightarrow> state \<Rightarrow> Shelter Result \<times> state" where
  "updateShelterInfo payload st =
     (case btree_get (SheltersStorage st) (UpdateShelterPayload.id payload) of
        None \<Rightarrow> (Err (NotFound (ascii ''Shelter not found.'')), st)
      | Some shelter \<Rightarrow>
          let updatedPayload =
                shelter\<lparr>Shelter.id := UpdateShelterPayload.id payload,
                        Shelter.phoneNumber := UpdateShelterPayload.phoneNumber payload,
                        Shelter.email := UpdateShelterPayload.email payload\<rparr>
          in if \<not> validateShelterPayload (shelterFields updatedPayload) then
               (Err (ValidationError
                  (ascii ''Invalid shelter payload. Please check all fields.'')), st)
             else
               let updatedShelter =
                     shelter\<lparr>Shelter.id := UpdateShelterPayload.id payload,
                             Shelter.phoneNumber := UpdateShelterPayload.phoneNumber payload,
                             Shelter.email := UpdateShelterPayload.email payload\<rparr>
               in (Ok updatedShelter,
                   st\<lparr>SheltersStorage :=
                        btree_insert (Shelter.id shelter) updatedShelter (SheltersStorage st)\<rparr>))"

text \<open>
  \<open>String.prototype.toLowerCase\<close> is the host's Unicode lower-casing; it is the parameter
  \<open>toLowerCase\<close> of the query.
\<close>

definition searchPetsBySpecies ::
  "(jsstring \<Rightarrow> jsstring) \<Rightarrow> jsstring \<Rightarrow> state \<Rightarrow> Pet list" where
  "searchPetsBySpecies toLowerCase species' st =
     filter (\<lambda>pet. toLowerCase (Pet.species pet) = toLowerCase species')
       (btree_values (PetsStorage st))"

subsection \<open>Adoption operations\<close>

definition fileForAdoption ::
  "env \<Rightarrow> AdoptionPayload \<Rightarrow> state \<Rightarrow> AdoptionRecords Result \<times> state" where
  "fileForAdoption e payload st =
     (if \<not> validateAdoptionPayload payload then
        (Err (ValidationError (ascii ''Invalid adoption payload. Please check all fields.'')),
         st)
      else
        case btree_get (UsersStorage st) (AdoptionPayload.userId payload) of
          None \<Rightarrow>
            (Err (NotFound (ascii ''User with ID '' @ AdoptionPayload.userId payload
                              @ ascii '' not found.'')), st)
        | Some user \<Rightarrow>
            (case btree_get (PetsStorage st) (AdoptionPayload.petId payload) of
               None \<Rightarrow>
                 (Err (NotFound (ascii ''Pet with ID '' @ AdoptionPayload.petId payload
                                   @ ascii '' not found.'')), st)
             | Some pet \<Rightarrow>
                 if Pet.status pet \<noteq> ascii ''notAdopted'' then
                   (Err (InvalidPayload (ascii ''Pet is not available for adoption.'')), st)
                 else
                   let adoptionId = uuid e;
                       records =
                         \<lparr> AdoptionRecords.adoptionId = adoptionId,
                           AdoptionRecords.userId = User.id user,
                           AdoptionRecords.petId = Pet.id pet,
                           petName = Pet.name pet,
                           AdoptionRecords.userName = User.name user,
                           AdoptionRecords.userPhoneNumber = User.phoneNumber user,
                           AdoptionRecords.address = User.address user,
                           AdoptionRecords.reasonForAdoption =
                             AdoptionPayload.reasonForAdoption payload,
                           dateOfAdoption = now e,
                           AdoptionRecords.status = ascii ''pending'' \<rparr>;
                       user' = user\<lparr>application :=
                                 application user @ [AdoptionRecords.adoptionId records]\<rparr>;
                       st1 = st\<lparr>UsersStorage :=
                                 btree_insert (User.id user') user' (UsersStorage st)\<rparr>
                   in (Ok records,
                       st1\<lparr>AdoptionsStorage :=
                             btree_insert (AdoptionRecords.adoptionId records) records
                               (AdoptionsStorage st1)\<rparr>)))"

definition getAdoptionRecords :: "state \<Rightarrow> AdoptionRecords list" where
  "getAdoptionRecords st = btree_values (AdoptionsStorage st)"

definition getAdoptionRecord :: "jsstring \<Rightarrow> state \<Rightarrow> AdoptionRecords option" where
  "getAdoptionRecord i st = btree_get (AdoptionsStorage st) i"

text \<open>
  After a successful validation the source calls
  \<open>AdoptionsStorage.insert(adoption.id, updatedAdoption)\<close>. An \<open>AdoptionRecords\<close> value has
  no field \<open>id\<close> (its identifier is \<open>adoptionId\<close>), so the key is \<open>undefined\<close>; the store
  encodes a key as \<open>text\<close> and throws on a value that is not a string. The call then
  ends without a reply value and without a change of state: the result \<open>None\<close>.
\<close>

definition updateAdoptionRecord ::
  "UpdateAdoption \<Rightarrow> state \<Rightarrow> AdoptionRecords Result option \<times> state" where
  "updateAdoptionRecord payload st =
     (case btree_get (AdoptionsStorage st) (UpdateAdoption.adoptionId payload) of
        None \<Rightarrow> (Some (Err (NotFound (ascii ''Adoption record not found.''))), st)
      | Some adoption \<Rightarrow>
          if length (trim (UpdateAdoption.userName payload)) = 0 \<or>
             \<not> isValidPhoneNumber (UpdateAdoption.userPhoneNumber payload) \<or>
             length (trim (UpdateAdoption.address payload)) = 0 \<or>
             length (trim (UpdateAdoption.reasonForAdoption payload)) = 0
          then (Some (Err (ValidationError (ascii ''Invalid adoption update payload.''))), st)
          else (None, st))"

definition completeAdoption :: "jsstring \<Rightarrow> state \<Rightarrow> AdoptionRecords Result \<times> state" where
  "completeAdoption adoptionId' st =
     (case btree_get (AdoptionsStorage st) adoptionId' of
        None \<Rightarrow> (Err (NotFound (ascii ''Adoption record not found.'')), st)
      | Some adoption \<Rightarrow>
          if AdoptionRecords.status adoption \<noteq> ascii ''pending'' then
            (Err (InvalidPayload (ascii ''Only pending adoptions can be completed.'')), st)
          else
            (case btree_get (PetsStorage st) (AdoptionRecords.petId adoption) of
               None \<Rightarrow> (Err (NotFound (ascii ''Associated pet not found.'')), st)
             | Some pet \<Rightarrow>
                 let updatedPet = pet\<lparr>Pet.status := ascii ''adopted''\<rparr>;
                     st1 = st\<lparr>PetsStorage :=
                               btree_insert (Pet.id pet) updatedPet (PetsStorage st)\<rparr>;
                     updatedAdoption =
                       adoption\<lparr>AdoptionRecords.status := ascii ''completed''\<rparr>
                 in (Ok updatedAdoption,
                     st1\<lparr>AdoptionsStorage :=
                           btree_insert adoptionId' updatedAdoption (AdoptionsStorage st1)\<rparr>)))"

definition failAdoption :: "jsstring \<Rightarrow> state \<Rightarrow> AdoptionRecords Result \<times> state" where
  "failAdoption adoptionId' st =
     (case btree_get (AdoptionsStorage st) adoptionId' of
        None \<Rightarrow> (Err (NotFound (ascii ''Adoption record not found.'')), st)
      | Some adoption \<Rightarrow>
          if AdoptionRecords.status adoption \<noteq> ascii ''pending'' then
            (Err (InvalidPayload (ascii ''Only pending adoptions can be failed.'')), st)
          else
            let updatedAdoption = adoption\<lparr>AdoptionRecords.status := ascii ''failed''\<rparr>
            in (Ok updatedAdoption,
                st\<lparr>AdoptionsStorage :=
                     btree_insert adoptionId' updatedAdoption (AdoptionsStorage st)\<rparr>))"

subsection \<open>The method table\<close>

text \<open>
  The canister's methods that return a \<open>Result\<close>: the ten \<open>update\<close> methods and the two
  owner queries. The other queries are the functions above, which cannot change the state.
\<close>

datatype Method =
    AddUser UserPayload
  | GetUserOwner
  | AddPet PetPayload
  | AddPetImage PetImage
  | UpdatePetInfo UpdatePetPayload
  | CreateShelter ShelterPayload
  | GetShelterOwner
  | UpdateShelterInfo UpdateShelterPayload
  | FileForAdoption AdoptionPayload
  | UpdateAdoptionRecord UpdateAdoption
  | CompleteAdoption jsstring
  | FailAdoption jsstring

datatype Reply =
    RUser User
  | RPet Pet
  | RPetImage PetImage
  | RShelter Shelter
  | RAdoption AdoptionRecords

fun reply :: "('a \<Rightarrow> Reply) \<Rightarrow> 'a Result \<Rightarrow> Reply Result" where
  "reply f (Ok x) = Ok (f x)"
| "reply f (Err err) = Err err"

text \<open>A call replies with a \<open>Result\<close>, or ends in an exception (\<open>None\<close>).\<close>

fun Canister :: "env \<Rightarrow> Method \<Rightarrow> state \<Rightarrow> Reply Result option \<times> state" where
  "Canister e (AddUser payload) st =
     (let (r, st') = addUser e payload st in (Some (reply RUser r), st'))"
| "Canister e GetUserOwner st = (Some (reply RUser (getUserOwner e st)), st)"
| "Canister e (AddPet payload) st =
     (let (r, st') = addPet e payload st in (Some (reply RPet r), st'))"
| "Canister e (AddPetImage payload) st =
     (let (r, st') = addPetImage payload st in (Some (reply RPetImage r), st'))"
| "Canister e (UpdatePetInfo payload) st =
     (let (r, st') = updatePetInfo payload st in (Some (reply RPet r), st'))"
| "Canister e (CreateShelter payload) st =
     (let (r, st') = createShelter e payload st in (Some (reply RShelter r), st'))"
| "Canister e GetShelterOwner st = (Some (reply RShelter (getShelterOwner e st)), st)"
| "Canister e (UpdateShelterInfo payload) st =
     (let (r, st') = updateShelterInfo payload st in (Some (reply RShelter r), st'))"
| "Canister e (FileForAdoption payload) st =
     (let (r, st') = fileForAdoption e payload st in (Some (reply RAdoption r), st'))"
| "Canister e (UpdateAdoptionRecord payload) st =
     (let (r, st') = updateAdoptionRecord payload st in (map_option (reply RAdoption) r, st'))"
| "Canister e (CompleteAdoption adoptionId') st =
     (let (r, st') = completeAdoption adoptionId' st in (Some (reply RAdoption r), st'))"
| "Canister e (FailAdoption adoptionId') st =
     (let (r, st') = failAdoption adoptionId' st in (Some (reply RAdoption r), st'))"

text \<open>A sequence of calls, each with its environment, from a given state.\<close>

fun run :: "(env \<times> Method) list \<Rightarrow> state \<Rightarrow> state" where
  "run [] st = st"
| "run ((e, m) # calls) st = run calls (snd (Canister e m st))"

section \<open>States and properties\<close>

text \<open>
  \<open>uuidv4()\<close> is taken to return an identifier that no store has as a key yet.
\<close>

definition freshUuid :: "env \<Rightarrow> state \<Rightarrow> bool" where
  "freshUuid e st \<longleftrightarrow>
     btree_get (UsersStorage st) (uuid e) = None \<and>
     btree_get (PetsStorage st) (uuid e) = None \<and>
     btree_get (SheltersStorage st) (uuid e) = None \<and>
     btree_get (AdoptionsStorage st) (uuid e) = None"

fun freshTrace :: "(env \<times> Method) list \<Rightarrow> state \<Rightarrow> bool" where
  "freshTrace [] st \<longleftrightarrow> True"
| "freshTrace ((e, m) # calls) st \<longleftrightarrow>
     freshUuid e st \<and> freshTrace calls (snd (Canister e m st))"

text \<open>The states that sequences of calls lead to from the empty stores.\<close>

inductive reachable :: "state \<Rightarrow> bool" where
  reachable_initial: "reachable initial"
| reachable_call: "reachable st \<Longrightarrow> freshUuid e st \<Longrightarrow> reachable (snd (Canister e m st))"

text \<open>
  Every record is stored under its own identifier, once: the shape of the stores in
  every reachable state.
\<close>

definition keysOk :: "('v \<Rightarrow> jsstring) \<Rightarrow> 'v StableBTreeMap \<Rightarrow> bool" where
  "keysOk ident m \<longleftrightarrow> distinct (map fst m) \<and> list_all (\<lambda>(k, v). ident v = k) m"

definition storesOk :: "state \<Rightarrow> bool" where
  "storesOk st \<longleftrightarrow>
     keysOk User.id (UsersStorage st) \<and>
     keysOk Pet.id (PetsStorage st) \<and>
     keysOk Shelter.id (SheltersStorage st) \<and>
     keysOk AdoptionRecords.adoptionId (AdoptionsStorage st)"

text \<open>The stores list their entries in the order of the keys.\<close>

definition storesSorted :: "state \<Rightarrow> bool" where
  "storesSorted st \<longleftrightarrow>
     sorted (map fst (UsersStorage st)) \<and>
     sorted (map fst (PetsStorage st)) \<and>
     sorted (map fst (SheltersStorage st)) \<and>
     sorted (map fst (AdoptionsStorage st))"

text \<open>The pending adoption records of a pet.\<close>

definition pendingFor :: "jsstring \<Rightarrow> state \<Rightarrow> AdoptionRecords list" where
  "pendingFor pid st =
     filter (\<lambda>r. AdoptionRecords.status r = ascii ''pending'' \<and> AdoptionRecords.petId r = pid)
       (btree_values (AdoptionsStorage st))"

text \<open>
  Every pet id in a shelter's list is the key of a pet whose \<open>shelterId\<close> is the
  shelter's id.
\<close>

definition petOfShelter :: "state \<Rightarrow> Shelter \<Rightarrow> jsstring \<Rightarrow> bool" where
  "petOfShelter st shelter pid \<longleftrightarrow>
     (case btree_get (PetsStorage st) pid of
        None \<Rightarrow> False
      | Some pet \<Rightarrow> Pet.shelterId pet = Shelter.id shelter)"

definition shelterPetsOk :: "state \<Rightarrow> bool" where
  "shelterPetsOk st \<longleftrightarrow>
     list_all (\<lambda>shelter. list_all (petOfShelter st shelter) (pets shelter))
       (btree_values (SheltersStorage st))"

section \<open>Example data\<close>

definition envWith :: "string \<Rightarrow> env" where
  "envWith u = \<lparr> caller = ascii ''2vxsx-fae'', uuid = ascii u,
                 now = ascii ''2024-05-01T09:30:00.000Z'' \<rparr>"

definition happyPaws :: ShelterPayload where
  "happyPaws =
     \<lparr> ShelterPayload.name = ascii ''Happy Paws'', ShelterPayload.location = ascii ''Nairobi'',
       ShelterPayload.phoneNumber = ascii ''0712345678'',
       ShelterPayload.email = ascii ''paws@example.org'' \<rparr>"

definition rex :: PetPayload where
  "rex =
     \<lparr> PetPayload.name = ascii ''Rex'', PetPayload.species = ascii ''Dog'',
       PetPayload.breed = ascii ''Beagle'', PetPayload.gender = ascii ''male'',
       PetPayload.age = ascii ''3'', PetPayload.petImage = ascii ''rex.png'',
       PetPayload.description = ascii ''calm'', PetPayload.healthStatus = ascii ''good'',
       PetPayload.shelterId = ascii ''s1'' \<rparr>"

definition ann :: UserPayload where
  "ann =
     \<lparr> UserPayload.name = ascii ''Ann'', UserPayload.phoneNumber = ascii ''0712345678'',
       UserPayload.email = ascii ''ann@example.org'', UserPayload.address = ascii ''1 Elm St'' \<rparr>"

definition bob :: UserPayload where
  "bob =
     \<lparr> UserPayload.name = ascii ''Bob'', UserPayload.phoneNumber = ascii ''0798765432'',
       UserPayload.email = ascii ''bob@example.org'', UserPayload.address = ascii ''2 Oak Rd'' \<rparr>"

text \<open>An adoption request for the pet \<open>p1\<close> by the given user.\<close>

definition requestBy :: "string \<Rightarrow> AdoptionPayload" where
  "requestBy u =
     \<lparr> AdoptionPayload.petId = ascii ''p1'', AdoptionPayload.userId = ascii u,
       AdoptionPayload.userPhoneNumber = ascii ''0700000000'',
       AdoptionPayload.address = ascii ''elsewhere'',
       AdoptionPayload.reasonForAdoption = ascii ''company'' \<rparr>"

text \<open>A shelter \<open>s1\<close> with one pet \<open>p1\<close>, and two users \<open>u1\<close> and \<open>u2\<close>.\<close>

definition registration :: "(env \<times> Method) list" where
  "registration =
     [(envWith ''s1'', CreateShelter happyPaws), (envWith ''p1'', AddPet rex),
      (envWith ''u1'', AddUser ann), (envWith ''u2'', AddUser bob)]"

definition registered :: state where
  "registered = run registration initial"

text \<open>Both users file for the same pet.\<close>

definition doubleFiling :: "(env \<times> Method) list" where
  "doubleFiling =
     registration @ [(envWith ''a1'', FileForAdoption (requestBy ''u1'')),
              (envWith ''a2'', FileForAdoption (requestBy ''u2''))]"

text \<open>Lower-casing of the letters A to Z, as \<open>toLowerCase\<close> does on ASCII strings.\<close>

definition asciiLower :: "jsstring \<Rightarrow> jsstring" where
  "asciiLower s = map (\<lambda>c. if 0x0041 \<le> c \<and> c \<le> 0x005A then c + 0x0020 else c) s"

text \<open>A state whose only record is a pending adoption of a pet that is not stored.\<close>

definition orphanRecord :: AdoptionRecords where
  "orphanRecord =
     \<lparr> AdoptionRecords.adoptionId = ascii ''a9'', AdoptionRecords.userId = ascii ''u9'',
       AdoptionRecords.petId = ascii ''p9'', petName = ascii ''Tom'',
       AdoptionRecords.userName = ascii ''Eve'',
       AdoptionRecords.userPhoneNumber = ascii ''0711111111'',
       AdoptionRecords.address = ascii ''3 Ash Ln'',
       AdoptionRecords.reasonForAdoption = ascii ''mice'',
       dateOfAdoption = ascii ''2024-05-01T09:30:00.000Z'',
       AdoptionRecords.status = ascii ''pending'' \<rparr>"

definition orphaned :: state where
  "orphaned = \<lparr> UsersStorage = [], PetsStorage = [], SheltersStorage = [],
                AdoptionsStorage = [(ascii ''a9'', orphanRecord)] \<rparr>"

text \<open>The state after Ann's request, and the records that the two requests store.\<close>

definition filed :: state where
  "filed = run (registration @ [(envWith ''a1'', FileForAdoption (requestBy ''u1''))]) initial"

definition annsRecord :: AdoptionRecords where
  "annsRecord =
     \<lparr> AdoptionRecords.adoptionId = ascii ''a1'', AdoptionRecords.userId = ascii ''u1'',
       AdoptionRecords.petId = ascii ''p1'', petName = ascii ''Rex'',
       AdoptionRecords.userName = ascii ''Ann'',
       AdoptionRecords.userPhoneNumber = ascii ''0712345678'',
       AdoptionRecords.address = ascii ''1 Elm St'',
       AdoptionRecords.reasonForAdoption = ascii ''company'',
       dateOfAdoption = ascii ''2024-05-01T09:30:00.000Z'',
       AdoptionRecords.status = ascii ''pending'' \<rparr>"

definition bobsRecord :: AdoptionRecords where
  "bobsRecord =
     \<lparr> AdoptionRecords.adoptionId = ascii ''a2'', AdoptionRecords.userId = ascii ''u2'',
       AdoptionRecords.petId = ascii ''p1'', petName = ascii ''Rex'',
       AdoptionRecords.userName = ascii ''Bob'',
       AdoptionRecords.userPhoneNumber = ascii ''0798765432'',
       AdoptionRecords.address = ascii ''2 Oak Rd'',
       AdoptionRecords.reasonForAdoption = ascii ''company'',
       dateOfAdoption = ascii ''2024-05-01T09:30:00.000Z'',
       AdoptionRecords.status = ascii ''pending'' \<rparr>"

text \<open>The pet \<open>p1\<close> as \<open>addPet\<close> stores it.\<close>

definition rexStored :: Pet where
  "rexStored =
     \<lparr> Pet.id = ascii ''p1'', Pet.name = ascii ''Rex'', Pet.species = ascii ''Dog'',
       Pet.breed = ascii ''Beagle'', Pet.gender = ascii ''male'', Pet.age = ascii ''3'',
       Pet.petImage = ascii ''rex.png'', Pet.description = ascii ''calm'',
       Pet.healthStatus = ascii ''good'', Pet.shelterId = ascii ''s1'',
       Pet.status = ascii ''notAdopted'' \<rparr>"

text \<open>Both users have filed for \<open>p1\<close> and the first adoption has been completed.\<close>

definition oneCompleted :: "(env \<times> Method) list" where
  "oneCompleted = doubleFiling @ [(envWith ''x1'', CompleteAdoption (ascii ''a1''))]"

text \<open>Ann's request with a blank reason, and with other contact details.\<close>

definition noReason :: AdoptionPayload where
  "noReason =
     \<lparr> AdoptionPayload.petId = ascii ''p1'', AdoptionPayload.userId = ascii ''u1'',
       AdoptionPayload.userPhoneNumber = ascii ''0700000000'',
       AdoptionPayload.address = ascii ''elsewhere'',
       AdoptionPayload.reasonForAdoption = ascii ''  '' \<rparr>"

definition otherContact :: AdoptionPayload where
  "otherContact =
     \<lparr> AdoptionPayload.petId = ascii ''p1'', AdoptionPayload.userId = ascii ''u1'',
       AdoptionPayload.userPhoneNumber = ascii ''0755555555'',
       AdoptionPayload.address = ascii ''nowhere'',
       AdoptionPayload.reasonForAdoption = ascii ''company'' \<rparr>"

text \<open>The users \<open>u1\<close> and \<open>u2\<close> as \<open>addUser\<close> stores them.\<close>

definition annStored :: User where
  "annStored =
     \<lparr> User.id = ascii ''u1'', User.principal = ascii ''2vxsx-fae'', User.name = ascii ''Ann'',
       User.phoneNumber = ascii ''0712345678'', User.email = ascii ''ann@example.org'',
       User.address = ascii ''1 Elm St'', application = [] \<rparr>"

definition bobStored :: User where
  "bobStored =
     \<lparr> User.id = ascii ''u2'', User.principal = ascii ''2vxsx-fae'', User.name = ascii ''Bob'',
       User.phoneNumber = ascii ''0798765432'', User.email = ascii ''bob@example.org'',
       User.address = ascii ''2 Oak Rd'', application = [] \<rparr>"

text \<open>The state with the shelter \<open>s1\<close> only, and the shelter as stored after \<open>addPet\<close>.\<close>

definition sheltered :: state where
  "sheltered = run [(envWith ''s1'', CreateShelter happyPaws)] initial"

definition happyPawsStored :: Shelter where
  "happyPawsStored =
     \<lparr> Shelter.id = ascii ''s1'', Shelter.principal = ascii ''2vxsx-fae'',
       Shelter.name = ascii ''Happy Paws'', Shelter.location = ascii ''Nairobi'',
       Shelter.phoneNumber = ascii ''0712345678'', Shelter.email = ascii ''paws@example.org'',
       pets = [ascii ''p1''] \<rparr>"

text \<open>Patches of the pet \<open>p1\<close> and of the shelter \<open>s1\<close>, one acceptable and one not.\<close>

definition healthPatch :: UpdatePetPayload where
  "healthPatch =
     \<lparr> UpdatePetPayload.petId = ascii ''p1'',
       UpdatePetPayload.healthStatus = ascii ''vaccinated'', UpdatePetPayload.age = ascii ''4'' \<rparr>"

definition blankHealth :: UpdatePetPayload where
  "blankHealth =
     \<lparr> UpdatePetPayload.petId = ascii ''p1'',
       UpdatePetPayload.healthStatus = ascii ''   '', UpdatePetPayload.age = ascii ''4'' \<rparr>"

definition contactPatch :: UpdateShelterPayload where
  "contactPatch =
     \<lparr> UpdateShelterPayload.id = ascii ''s1'',
       UpdateShelterPayload.phoneNumber = ascii ''0722222222'',
       UpdateShelterPayload.email = ascii ''new@paws.org'' \<rparr>"

definition badEmail :: UpdateShelterPayload where
  "badEmail =
     \<lparr> UpdateShelterPayload.id = ascii ''s1'',
       UpdateShelterPayload.phoneNumber = ascii ''0722222222'',
       UpdateShelterPayload.email = ascii ''nowhere'' \<rparr>"

text \<open>A second pet, a cat; with it in the shelter, \<open>p1\<close> is adopted by Ann.\<close>

definition tom :: PetPayload where
  "tom =
     \<lparr> PetPayload.name = ascii ''Tom'', PetPayload.species = ascii ''Cat'',
       PetPayload.breed = ascii ''Tabby'', PetPayload.gender = ascii ''male'',
       PetPayload.age = ascii ''2'', PetPayload.petImage = ascii ''tom.png'',
       PetPayload.description = ascii ''shy'', PetPayload.healthStatus = ascii ''good'',
       PetPayload.shelterId = ascii ''s1'' \<rparr>"

definition tomStored :: Pet where
  "tomStored =
     \<lparr> Pet.id = ascii ''p2'', Pet.name = ascii ''Tom'', Pet.species = ascii ''Cat'',
       Pet.breed = ascii ''Tabby'', Pet.gender = ascii ''male'', Pet.age = ascii ''2'',
       Pet.petImage = ascii ''tom.png'', Pet.description = ascii ''shy'',
       Pet.healthStatus = ascii ''good'', Pet.shelterId = ascii ''s1'',
       Pet.status = ascii ''notAdopted'' \<rparr>"

definition twoPets :: state where
  "twoPets =
     run (registration @
          [(envWith ''p2'', AddPet tom),
           (envWith ''a1'', FileForAdoption (requestBy ''u1'')),
           (envWith ''x1'', CompleteAdoption (ascii ''a1''))]) initial"

section \<open>Basic facts\<close>

lemma map_of_insort_key:
  "map_of (insort_key fst (k, v) m) k' = (if k' = k then Some v else map_of m k')"
  by (induction m) auto

lemma btree_get_insert:
  "btree_get (btree_insert k v m) k' = (if k' = k then Some v else btree_get m k')"
  by (simp add: btree_get_def btree_insert_def update_conv' map_of_insort_key)

lemma set_update_subset: "set (AList.update k v m) \<subseteq> insert (k, v) (set m)"
  by (induction m) auto

lemma set_btree_insert_subset: "set (btree_insert k v m) \<subseteq> insert (k, v) (set m)"
  using set_update_subset [of k v m]
  by (simp add: btree_insert_def set_insort_key)

lemma distinct_btree_insert:
  "distinct (map fst m) \<Longrightarrow> distinct (map fst (btree_insert k v m))"
  by (simp add: btree_insert_def distinct_update distinct_insort_key)

lemma sorted_btree_insert:
  "sorted (map fst m) \<Longrightarrow> sorted (map fst (btree_insert k v m))"
  by (simp add: btree_insert_def update_keys sorted_insort_key)

lemma reply_Err: "reply f r = Err err \<longleftrightarrow> r = Err err"
  by (cases r) simp_all

subsection \<open>String literals\<close>

lemma code_unit_bound: "of_char c < (2 :: nat) ^ LENGTH(16)"
proof -
  have "(256 :: nat) \<le> 2 ^ LENGTH(16)" by simp
  with nat_of_char_less_256 [of c] show ?thesis by (rule less_le_trans)
qed

lemma code_unit_inj: "(of_nat (of_char c) :: 16 word) = of_nat (of_char d) \<longleftrightarrow> c = d"
proof
  assume eq: "(of_nat (of_char c) :: 16 word) = of_nat (of_char d)"
  have "(of_char c :: nat) = unat (of_nat (of_char c) :: 16 word)"
    by (rule of_nat_inverse [OF refl code_unit_bound, symmetric])
  also have "\<dots> = unat (of_nat (of_char d) :: 16 word)"
    by (rule arg_cong [OF eq])
  also have "\<dots> = of_char d"
    by (rule of_nat_inverse [OF refl code_unit_bound])
  finally show "c = d" by (simp only: of_char_eq_iff)
next
  assume "c = d"
  then show "(of_nat (of_char c) :: 16 word) = of_nat (of_char d)" by (simp only:)
qed

lemma ascii_eq_iff: "ascii s = ascii t \<longleftrightarrow> s = t"
proof -
  have "inj (\<lambda>c. of_nat (of_char c) :: 16 word)"
    by (rule injI) (simp add: code_unit_inj)
  then show ?thesis
    by (simp add: ascii_def)
qed

text \<open>The order of two literals is the order of their character codes.\<close>

lemma code_unit_less: "(of_nat (of_char c) :: 16 word) < of_nat (of_char d) \<longleftrightarrow>
    (of_char c :: nat) < of_char d"
  using code_unit_bound [of c] code_unit_bound [of d]
  by (simp only: of_nat_word_less_iff take_bit_nat_eq_self)

lemma ascii_le_iff: "ascii s \<le> ascii t \<longleftrightarrow> (map of_char s :: nat list) \<le> map of_char t"
proof (induction s arbitrary: t)
  case Nil
  show ?case by (simp add: ascii_def)
next
  case (Cons c s)
  show ?case
  proof (cases t)
    case Nil
    then show ?thesis by (simp add: ascii_def)
  next
    case (Cons d t')
    with Cons.IH [of t'] show ?thesis
      by (simp add: ascii_def code_unit_less code_unit_inj)
  qed
qed

lemma ascii_append: "ascii s @ ascii t = ascii (s @ t)"
  by (simp add: ascii_def)

lemma ascii_append_assoc: "ascii s @ ascii t @ u = ascii (s @ t) @ u"
  by (simp add: ascii_def)

subsection \<open>Evaluating the examples\<close>

lemma happyPaws_valid: "validateShelterPayload happyPaws"
  by code_simp

lemma rex_valid: "validatePetPayload rex"
  by code_simp

lemma ann_valid: "validateUserPayload ann"
  by code_simp

lemma bob_valid: "validateUserPayload bob"
  by code_simp

lemma requestBy_u1_valid: "validateAdoptionPayload (requestBy ''u1'')"
  by code_simp

lemma requestBy_u2_valid: "validateAdoptionPayload (requestBy ''u2'')"
  by code_simp

lemmas ops =
  addUser_def addPet_def addPetImage_def updatePetInfo_def createShelter_def
  updateShelterInfo_def fileForAdoption_def updateAdoptionRecord_def completeAdoption_def
  failAdoption_def getUserOwner_def getShelterOwner_def
  btree_get_def btree_insert_def btree_values_def Let_def initial_def envWith_def
  freshUuid_def ascii_eq_iff ascii_le_iff ascii_append ascii_append_assoc

lemmas data =
  happyPaws_def rex_def ann_def bob_def requestBy_def
  happyPaws_valid [unfolded happyPaws_def] rex_valid [unfolded rex_def]
  ann_valid [unfolded ann_def] bob_valid [unfolded bob_def]
  requestBy_u1_valid [unfolded requestBy_def] requestBy_u2_valid [unfolded requestBy_def]
  registration_def registered_def doubleFiling_def oneCompleted_def filed_def
  annsRecord_def bobsRecord_def rexStored_def orphaned_def orphanRecord_def

lemma run_append: "run (xs @ ys) st = run ys (run xs st)"
  by (induction xs arbitrary: st) auto

lemma freshTrace_reachable:
  "reachable st \<Longrightarrow> freshTrace calls st \<Longrightarrow> reachable (run calls st)"
proof (induction calls arbitrary: st)
  case Nil
  then show ?case by simp
next
  case (Cons c calls)
  obtain e m where c: "c = (e, m)" by (cases c)
  from Cons.prems have "freshUuid e st" and "freshTrace calls (snd (Canister e m st))"
    by (simp_all add: c)
  with Cons.prems(1) Cons.IH show ?case
    by (simp add: c reachable_call)
qed

section \<open>Errors leave the stores as they were\<close>

lemma addUser_Err: "addUser e p st = (Err err, st') \<Longrightarrow> st' = st"
  by (auto simp: addUser_def Let_def split: if_splits)

lemma addPet_Err: "addPet e p st = (Err err, st') \<Longrightarrow> st' = st"
  by (auto simp: addPet_def Let_def split: if_splits option.splits)

lemma addPetImage_Err: "addPetImage p st = (Err err, st') \<Longrightarrow> st' = st"
  by (auto simp: addPetImage_def Let_def split: if_splits option.splits)

lemma updatePetInfo_Err: "updatePetInfo p st = (Err err, st') \<Longrightarrow> st' = st"
  by (auto simp: updatePetInfo_def Let_def split: if_splits option.splits)

lemma createShelter_Err: "createShelter e p st = (Err err, st') \<Longrightarrow> st' = st"
  by (auto simp: createShelter_def Let_def split: if_splits)

lemma updateShelterInfo_Err: "updateShelterInfo p st = (Err err, st') \<Longrightarrow> st' = st"
  by (auto simp: updateShelterInfo_def Let_def split: if_splits option.splits)

lemma fileForAdoption_Err: "fileForAdoption e p st = (Err err, st') \<Longrightarrow> st' = st"
  by (auto simp: fileForAdoption_def Let_def split: if_splits option.splits)

lemma updateAdoptionRecord_state: "snd (updateAdoptionRecord p st) = st"
  by (auto simp: updateAdoptionRecord_def split: option.splits)

lemma completeAdoption_Err: "completeAdoption a st = (Err err, st') \<Longrightarrow> st' = st"
  by (auto simp: completeAdoption_def Let_def split: if_splits option.splits)

lemma failAdoption_Err: "failAdoption a st = (Err err, st') \<Longrightarrow> st' = st"
  by (auto simp: failAdoption_def Let_def split: if_splits option.splits)

text \<open>
  C2. Whatever the method and the state, a call that replies with an error (of any of
  the three kinds) returns the state it was given: the four stores are as before.
\<close>

theorem error_leaves_stores_unchanged:
  assumes "Canister e m st = (Some (Err err), st')"
  shows "st' = st"
proof (cases m)
  case (AddUser p)
  with assms show ?thesis
    by (auto simp: reply_Err split: prod.splits dest: addUser_Err)
next
  case GetUserOwner
  with assms show ?thesis by simp
next
  case (AddPet p)
  with assms show ?thesis
    by (auto simp: reply_Err split: prod.splits dest: addPet_Err)
next
  case (AddPetImage p)
  with assms show ?thesis
    by (auto simp: reply_Err split: prod.splits dest: addPetImage_Err)
next
  case (UpdatePetInfo p)
  with assms show ?thesis
    by (auto simp: reply_Err split: prod.splits dest: updatePetInfo_Err)
next
  case (CreateShelter p)
  with assms show ?thesis
    by (auto simp: reply_Err split: prod.splits dest: createShelter_Err)
next
  case GetShelterOwner
  with assms show ?thesis by simp
next
  case (UpdateShelterInfo p)
  with assms show ?thesis
    by (auto simp: reply_Err split: prod.splits dest: updateShelterInfo_Err)
next
  case (FileForAdoption p)
  with assms show ?thesis
    by (auto simp: reply_Err split: prod.splits dest: fileForAdoption_Err)
next
  case (UpdateAdoptionRecord p)
  with assms updateAdoptionRecord_state [of p st] show ?thesis
    by (auto split: prod.splits)
next
  case (CompleteAdoption a)
  with assms show ?thesis
    by (auto simp: reply_Err split: prod.splits dest: completeAdoption_Err)
next
  case (FailAdoption a)
  with assms show ?thesis
    by (auto simp: reply_Err split: prod.splits dest: failAdoption_Err)
qed

text \<open>Adding a pet to a shelter that does not exist: \<open>NotFound\<close>, and nothing is stored.\<close>

theorem error_leaves_stores_unchanged_witness:
  "fst (Canister (envWith ''p1'') (AddPet rex) initial)
     = Some (Err (NotFound (ascii ''Shelter with ID s1 not found.''))) \<and>
   snd (Canister (envWith ''p1'') (AddPet rex) initial) = initial"
proof -
  have h: "Canister (envWith ''p1'') (AddPet rex) initial
             = (Some (Err (NotFound (ascii ''Shelter with ID s1 not found.''))),
                snd (Canister (envWith ''p1'') (AddPet rex) initial))"
    by (simp add: ops data)
  from error_leaves_stores_unchanged [OF h] h show ?thesis by simp
qed

section \<open>Completing an adoption\<close>

text \<open>
  C9. When the adoption record exists and is pending but its \<open>petId\<close> is not a key of the
  pet store, \<open>completeAdoption\<close> replies \<open>NotFound\<close> and returns the state unchanged: the
  record stays pending and the pet store is as before.
\<close>

theorem completeAdoption_pet_missing:
  assumes "btree_get (AdoptionsStorage st) adoptionId' = Some adoption"
    and "AdoptionRecords.status adoption = ascii ''pending''"
    and "btree_get (PetsStorage st) (AdoptionRecords.petId adoption) = None"
  shows "completeAdoption adoptionId' st
           = (Err (NotFound (ascii ''Associated pet not found.'')), st)"
  using assms by (simp add: completeAdoption_def)

theorem completeAdoption_pet_missing_witness:
  "completeAdoption (ascii ''a9'') orphaned
     = (Err (NotFound (ascii ''Associated pet not found.'')), orphaned) \<and>
   btree_get (AdoptionsStorage orphaned) (ascii ''a9'') = Some orphanRecord \<and>
   AdoptionRecords.status orphanRecord = ascii ''pending''"
proof -
  have a: "btree_get (AdoptionsStorage orphaned) (ascii ''a9'') = Some orphanRecord"
    by (simp add: ops data)
  have b: "AdoptionRecords.status orphanRecord = ascii ''pending''"
    by (simp add: data)
  have c: "btree_get (PetsStorage orphaned) (AdoptionRecords.petId orphanRecord) = None"
    by (simp add: ops data)
  from completeAdoption_pet_missing [OF a b c] a b show ?thesis by simp
qed

lemma keysOk_get: "keysOk ident m \<Longrightarrow> btree_get m k = Some v \<Longrightarrow> ident v = k"
  by (auto simp: keysOk_def btree_get_def list_all_iff dest!: map_of_SomeD)

lemma completeAdoption_absent:
  "btree_get (AdoptionsStorage st) adoptionId' = None \<Longrightarrow>
   completeAdoption adoptionId' st = (Err (NotFound (ascii ''Adoption record not found.'')), st)"
  by (simp add: completeAdoption_def)

lemma completeAdoption_not_pending:
  "btree_get (AdoptionsStorage st) adoptionId' = Some adoption \<Longrightarrow>
   AdoptionRecords.status adoption \<noteq> ascii ''pending'' \<Longrightarrow>
   completeAdoption adoptionId' st
     = (Err (InvalidPayload (ascii ''Only pending adoptions can be completed.'')), st)"
  by (simp add: completeAdoption_def)

lemma completeAdoption_completes:
  assumes "btree_get (AdoptionsStorage st) adoptionId' = Some adoption"
    and "AdoptionRecords.status adoption = ascii ''pending''"
    and "btree_get (PetsStorage st) (AdoptionRecords.petId adoption) = Some pet"
  shows "completeAdoption adoptionId' st
           = (Ok (adoption\<lparr>AdoptionRecords.status := ascii ''completed''\<rparr>),
              st\<lparr>PetsStorage :=
                   btree_insert (Pet.id pet) (pet\<lparr>Pet.status := ascii ''adopted''\<rparr>)
                     (PetsStorage st),
                 AdoptionsStorage :=
                   btree_insert adoptionId'
                     (adoption\<lparr>AdoptionRecords.status := ascii ''completed''\<rparr>)
                     (AdoptionsStorage st)\<rparr>)"
  using assms by (simp add: completeAdoption_def Let_def)

lemma completeAdoption_Ok:
  assumes "completeAdoption adoptionId' st = (Ok r, st')"
  shows "\<exists>adoption pet.
           btree_get (AdoptionsStorage st) adoptionId' = Some adoption \<and>
           AdoptionRecords.status adoption = ascii ''pending'' \<and>
           btree_get (PetsStorage st) (AdoptionRecords.petId adoption) = Some pet \<and>
           r = adoption\<lparr>AdoptionRecords.status := ascii ''completed''\<rparr> \<and>
           st' = st\<lparr>PetsStorage :=
                      btree_insert (Pet.id pet) (pet\<lparr>Pet.status := ascii ''adopted''\<rparr>)
                        (PetsStorage st),
                    AdoptionsStorage := btree_insert adoptionId' r (AdoptionsStorage st)\<rparr>"
  using assms
  by (auto simp: completeAdoption_def Let_def split: option.splits if_splits)

lemma completeAdoption_twice:
  assumes "completeAdoption adoptionId' st = (Ok r, st')"
  shows "completeAdoption adoptionId' st'
           = (Err (InvalidPayload (ascii ''Only pending adoptions can be completed.'')), st')"
proof -
  from completeAdoption_Ok [OF assms] obtain adoption pet where
    r: "r = adoption\<lparr>AdoptionRecords.status := ascii ''completed''\<rparr>" and
    st': "st' = st\<lparr>PetsStorage :=
                      btree_insert (Pet.id pet) (pet\<lparr>Pet.status := ascii ''adopted''\<rparr>)
                        (PetsStorage st),
                    AdoptionsStorage := btree_insert adoptionId' r (AdoptionsStorage st)\<rparr>"
    by blast
  have "btree_get (AdoptionsStorage st') adoptionId' = Some r"
    by (simp add: st' btree_get_insert)
  moreover have "AdoptionRecords.status r \<noteq> ascii ''pending''"
    by (simp add: r ascii_eq_iff)
  ultimately show ?thesis by (rule completeAdoption_not_pending)
qed

text \<open>
  C4. \<open>completeAdoption\<close> replies \<open>NotFound\<close> when no record has the given id and
  \<open>InvalidPayload\<close> when the record is not pending, both without a change of state. When
  the record is pending and its pet is stored under the record's \<open>petId\<close>, the call
  succeeds: the reply is the record with status \<open>completed\<close>, and the new state differs
  from the old one in two places, the pet with status \<open>adopted\<close> stored under the pet's
  id and the reply stored under the adoption id. Every success is of this kind (the
  pet's id is the record's \<open>petId\<close> when every record is stored under its own id), and
  a second \<open>completeAdoption\<close> of the same id in the new state replies \<open>InvalidPayload\<close>.
\<close>

theorem completeAdoption_outcomes:
  "(btree_get (AdoptionsStorage st) adoptionId' = None \<longrightarrow>
      completeAdoption adoptionId' st
        = (Err (NotFound (ascii ''Adoption record not found.'')), st)) \<and>
   (\<forall>adoption. btree_get (AdoptionsStorage st) adoptionId' = Some adoption \<and>
      AdoptionRecords.status adoption \<noteq> ascii ''pending'' \<longrightarrow>
      completeAdoption adoptionId' st
        = (Err (InvalidPayload (ascii ''Only pending adoptions can be completed.'')), st)) \<and>
   (\<forall>adoption pet. btree_get (AdoptionsStorage st) adoptionId' = Some adoption \<and>
      AdoptionRecords.status adoption = ascii ''pending'' \<and>
      btree_get (PetsStorage st) (AdoptionRecords.petId adoption) = Some pet \<longrightarrow>
      completeAdoption adoptionId' st
        = (Ok (adoption\<lparr>AdoptionRecords.status := ascii ''completed''\<rparr>),
           st\<lparr>PetsStorage :=
                btree_insert (Pet.id pet) (pet\<lparr>Pet.status := ascii ''adopted''\<rparr>)
                  (PetsStorage st),
              AdoptionsStorage :=
                btree_insert adoptionId'
                  (adoption\<lparr>AdoptionRecords.status := ascii ''completed''\<rparr>)
                  (AdoptionsStorage st)\<rparr>)) \<and>
   (\<forall>r st'. completeAdoption adoptionId' st = (Ok r, st') \<longrightarrow>
      (\<exists>adoption pet.
         btree_get (AdoptionsStorage st) adoptionId' = Some adoption \<and>
         btree_get (PetsStorage st) (AdoptionRecords.petId adoption) = Some pet \<and>
         r = adoption\<lparr>AdoptionRecords.status := ascii ''completed''\<rparr> \<and>
         st' = st\<lparr>PetsStorage :=
                    btree_insert (Pet.id pet) (pet\<lparr>Pet.status := ascii ''adopted''\<rparr>)
                      (PetsStorage st),
                  AdoptionsStorage := btree_insert adoptionId' r (AdoptionsStorage st)\<rparr> \<and>
         btree_get (AdoptionsStorage st') adoptionId' = Some r \<and>
         btree_get (PetsStorage st') (Pet.id pet)
           = Some (pet\<lparr>Pet.status := ascii ''adopted''\<rparr>) \<and>
         (storesOk st \<longrightarrow>
            btree_get (PetsStorage st') (AdoptionRecords.petId adoption)
              = Some (pet\<lparr>Pet.status := ascii ''adopted''\<rparr>))) \<and>
      completeAdoption adoptionId' st'
        = (Err (InvalidPayload (ascii ''Only pending adoptions can be completed.'')), st'))"
proof (intro conjI allI impI)
  fix r st'
  assume ok: "completeAdoption adoptionId' st = (Ok r, st')"
  from completeAdoption_Ok [OF ok] obtain adoption pet where
    a: "btree_get (AdoptionsStorage st) adoptionId' = Some adoption" and
    p: "btree_get (PetsStorage st) (AdoptionRecords.petId adoption) = Some pet" and
    r: "r = adoption\<lparr>AdoptionRecords.status := ascii ''completed''\<rparr>" and
    st': "st' = st\<lparr>PetsStorage :=
                      btree_insert (Pet.id pet) (pet\<lparr>Pet.status := ascii ''adopted''\<rparr>)
                        (PetsStorage st),
                    AdoptionsStorage := btree_insert adoptionId' r (AdoptionsStorage st)\<rparr>"
    by blast
  have g1: "btree_get (AdoptionsStorage st') adoptionId' = Some r"
    by (simp add: st' btree_get_insert)
  have g2: "btree_get (PetsStorage st') (Pet.id pet)
              = Some (pet\<lparr>Pet.status := ascii ''adopted''\<rparr>)"
    by (simp add: st' btree_get_insert)
  have g3: "storesOk st \<longrightarrow>
              btree_get (PetsStorage st') (AdoptionRecords.petId adoption)
                = Some (pet\<lparr>Pet.status := ascii ''adopted''\<rparr>)"
  proof
    assume "storesOk st"
    then have "keysOk Pet.id (PetsStorage st)" by (simp add: storesOk_def)
    from keysOk_get [OF this p] g2 show
      "btree_get (PetsStorage st') (AdoptionRecords.petId adoption)
         = Some (pet\<lparr>Pet.status := ascii ''adopted''\<rparr>)"
      by simp
  qed
  from a p r st' g1 g2 g3 show
    "\<exists>adoption pet.
         btree_get (AdoptionsStorage st) adoptionId' = Some adoption \<and>
         btree_get (PetsStorage st) (AdoptionRecords.petId adoption) = Some pet \<and>
         r = adoption\<lparr>AdoptionRecords.status := ascii ''completed''\<rparr> \<and>
         st' = st\<lparr>PetsStorage :=
                    btree_insert (Pet.id pet) (pet\<lparr>Pet.status := ascii ''adopted''\<rparr>)
                      (PetsStorage st),
                  AdoptionsStorage := btree_insert adoptionId' r (AdoptionsStorage st)\<rparr> \<and>
         btree_get (AdoptionsStorage st') adoptionId' = Some r \<and>
         btree_get (PetsStorage st') (Pet.id pet)
           = Some (pet\<lparr>Pet.status := ascii ''adopted''\<rparr>) \<and>
         (storesOk st \<longrightarrow>
            btree_get (PetsStorage st') (AdoptionRecords.petId adoption)
              = Some (pet\<lparr>Pet.status := ascii ''adopted''\<rparr>))"
    by blast
  from completeAdoption_twice [OF ok] show
    "completeAdoption adoptionId' st'
       = (Err (InvalidPayload (ascii ''Only pending adoptions can be completed.'')), st')" .
qed (simp_all add: completeAdoption_absent completeAdoption_not_pending
       completeAdoption_completes)

text \<open>
  The happy path: after Ann's request \<open>a1\<close> for the pet \<open>p1\<close>, completing \<open>a1\<close> succeeds
  and leaves \<open>p1\<close> adopted; completing it again, or completing an unknown id, fails.
\<close>

theorem completeAdoption_outcomes_witness:
  "completeAdoption (ascii ''zz'') filed
     = (Err (NotFound (ascii ''Adoption record not found.'')), filed) \<and>
   fst (completeAdoption (ascii ''a1'') filed)
     = Ok (annsRecord\<lparr>AdoptionRecords.status := ascii ''completed''\<rparr>) \<and>
   btree_get (PetsStorage (snd (completeAdoption (ascii ''a1'') filed))) (ascii ''p1'')
     = Some (rexStored\<lparr>Pet.status := ascii ''adopted''\<rparr>) \<and>
   completeAdoption (ascii ''a1'') (snd (completeAdoption (ascii ''a1'') filed))
     = (Err (InvalidPayload (ascii ''Only pending adoptions can be completed.'')),
        snd (completeAdoption (ascii ''a1'') filed))"
proof -
  let ?st' = "snd (completeAdoption (ascii ''a1'') filed)"
  let ?r = "annsRecord\<lparr>AdoptionRecords.status := ascii ''completed''\<rparr>"
  have none: "btree_get (AdoptionsStorage filed) (ascii ''zz'') = None"
    by (simp add: ops data)
  have wf: "storesOk filed"
    by (simp add: ops data storesOk_def keysOk_def)
  have a: "btree_get (AdoptionsStorage filed) (ascii ''a1'') = Some annsRecord"
    by (simp add: ops data)
  have pending: "AdoptionRecords.status annsRecord = ascii ''pending''"
    by (simp add: data)
  have p: "btree_get (PetsStorage filed) (AdoptionRecords.petId annsRecord) = Some rexStored"
    by (simp add: ops data)
  have pid: "AdoptionRecords.petId annsRecord = ascii ''p1''"
    by (simp add: data)
  from completeAdoption_outcomes [of filed "ascii ''a1''"] a pending p
  have "completeAdoption (ascii ''a1'') filed
          = (Ok ?r,
             filed\<lparr>PetsStorage :=
                     btree_insert (Pet.id rexStored) (rexStored\<lparr>Pet.status := ascii ''adopted''\<rparr>)
                       (PetsStorage filed),
                   AdoptionsStorage := btree_insert (ascii ''a1'') ?r (AdoptionsStorage filed)\<rparr>)"
    by blast
  then have ok: "completeAdoption (ascii ''a1'') filed = (Ok ?r, ?st')"
    by simp
  from completeAdoption_outcomes [of filed "ascii ''zz''"] none
  have 1: "completeAdoption (ascii ''zz'') filed
             = (Err (NotFound (ascii ''Adoption record not found.'')), filed)"
    by blast
  from ok have 2: "fst (completeAdoption (ascii ''a1'') filed) = Ok ?r"
    by (metis fst_conv)
  from completeAdoption_outcomes [of filed "ascii ''a1''"] ok wf obtain adoption pet where
    "btree_get (AdoptionsStorage filed) (ascii ''a1'') = Some adoption" and
    "btree_get (PetsStorage filed) (AdoptionRecords.petId adoption) = Some pet" and
    "btree_get (PetsStorage ?st') (AdoptionRecords.petId adoption)
       = Some (pet\<lparr>Pet.status := ascii ''adopted''\<rparr>)"
    by blast
  with a p pid have 3: "btree_get (PetsStorage ?st') (ascii ''p1'')
                          = Some (rexStored\<lparr>Pet.status := ascii ''adopted''\<rparr>)"
    by simp
  from completeAdoption_outcomes [of filed "ascii ''a1''"] ok
  have 4: "completeAdoption (ascii ''a1'') ?st'
             = (Err (InvalidPayload (ascii ''Only pending adoptions can be completed.'')), ?st')"
    by blast
  from 1 2 3 4 show ?thesis by blast
qed

section \<open>Pending adoptions of one pet\<close>

text \<open>
  C1. The claim is that no reachable state has two pending adoption records with the
  same \<open>petId\<close>. Filing leaves the pet's status at \<open>notAdopted\<close>, which is all that the
  next filing checks: when two users file for the pet \<open>p1\<close>, each call with a fresh
  identifier, the state reached has two pending records for \<open>p1\<close>.
\<close>

theorem two_pending_for_one_pet:
  "reachable (run doubleFiling initial) \<and>
   pendingFor (ascii ''p1'') (run doubleFiling initial) = [annsRecord, bobsRecord]"
proof
  have "freshTrace doubleFiling initial"
    by (simp add: ops data)
  with reachable_initial show "reachable (run doubleFiling initial)"
    by (rule freshTrace_reachable)
  show "pendingFor (ascii ''p1'') (run doubleFiling initial) = [annsRecord, bobsRecord]"
    by (simp add: ops data pendingFor_def)
qed

section \<open>Filing for adoption\<close>

lemma noReason_invalid: "\<not> validateAdoptionPayload noReason"
  by code_simp

lemma otherContact_valid: "validateAdoptionPayload otherContact"
  by code_simp

lemmas data2 =
  noReason_def otherContact_def
  noReason_invalid [unfolded noReason_def] otherContact_valid [unfolded otherContact_def]

lemma fileForAdoption_unavailable:
  assumes "validateAdoptionPayload payload"
    and "btree_get (UsersStorage st) (AdoptionPayload.userId payload) = Some user"
    and "btree_get (PetsStorage st) (AdoptionPayload.petId payload) = Some pet"
    and "Pet.status pet \<noteq> ascii ''notAdopted''"
  shows "fileForAdoption e payload st
           = (Err (InvalidPayload (ascii ''Pet is not available for adoption.'')), st)"
  using assms by (simp add: fileForAdoption_def)

lemma fileForAdoption_available:
  assumes "validateAdoptionPayload payload"
    and "btree_get (UsersStorage st) (AdoptionPayload.userId payload) = Some user"
    and "btree_get (PetsStorage st) (AdoptionPayload.petId payload) = Some pet"
    and "Pet.status pet = ascii ''notAdopted''"
  shows "\<exists>r. fileForAdoption e payload st
               = (Ok r,
                  st\<lparr>UsersStorage :=
                       btree_insert (User.id user)
                         (user\<lparr>application := application user @ [uuid e]\<rparr>) (UsersStorage st),
                     AdoptionsStorage := btree_insert (uuid e) r (AdoptionsStorage st)\<rparr>) \<and>
             AdoptionRecords.adoptionId r = uuid e \<and>
             AdoptionRecords.status r = ascii ''pending'' \<and>
             AdoptionRecords.userId r = User.id user \<and>
             AdoptionRecords.petId r = Pet.id pet \<and>
             petName r = Pet.name pet \<and>
             AdoptionRecords.userName r = User.name user \<and>
             AdoptionRecords.userPhoneNumber r = User.phoneNumber user \<and>
             AdoptionRecords.address r = User.address user \<and>
             AdoptionRecords.reasonForAdoption r = AdoptionPayload.reasonForAdoption payload \<and>
             dateOfAdoption r = now e"
  using assms by (simp add: fileForAdoption_def Let_def)

lemma fileForAdoption_record:
  assumes "validateAdoptionPayload payload"
    and "btree_get (UsersStorage st) (AdoptionPayload.userId payload) = Some user"
    and "btree_get (PetsStorage st) (AdoptionPayload.petId payload) = Some pet"
    and "Pet.status pet = ascii ''notAdopted''"
  shows "fst (fileForAdoption e payload st)
           = Ok \<lparr> AdoptionRecords.adoptionId = uuid e,
                  AdoptionRecords.userId = User.id user,
                  AdoptionRecords.petId = Pet.id pet,
                  petName = Pet.name pet,
                  AdoptionRecords.userName = User.name user,
                  AdoptionRecords.userPhoneNumber = User.phoneNumber user,
                  AdoptionRecords.address = User.address user,
                  AdoptionRecords.reasonForAdoption = AdoptionPayload.reasonForAdoption payload,
                  dateOfAdoption = now e,
                  AdoptionRecords.status = ascii ''pending'' \<rparr>"
  using assms by (simp add: fileForAdoption_def Let_def)

lemma fileForAdoption_Ok:
  assumes "fileForAdoption e payload st = (Ok r, st')"
  shows "\<exists>user pet.
           validateAdoptionPayload payload \<and>
           btree_get (UsersStorage st) (AdoptionPayload.userId payload) = Some user \<and>
           btree_get (PetsStorage st) (AdoptionPayload.petId payload) = Some pet \<and>
           Pet.status pet = ascii ''notAdopted''"
  using assms
  by (auto simp: fileForAdoption_def Let_def split: if_splits option.splits)

text \<open>
  C3, as amended. For a payload that passes \<open>validateAdoptionPayload\<close> and whose \<open>userId\<close>
  and \<open>petId\<close> are keys of the user and pet stores: when the pet's status is not
  \<open>notAdopted\<close> the reply is \<open>InvalidPayload\<close> and the state is unchanged; otherwise the
  reply is a record with status \<open>pending\<close> and the generated id, which is stored under
  that id, the id is appended to the user's \<open>application\<close> list (the user record is
  stored under its own id, which is the payload's \<open>userId\<close> when every record is stored
  under its own id), and the pet and shelter stores are unchanged.
\<close>

theorem fileForAdoption_outcomes:
  assumes "validateAdoptionPayload payload"
    and "btree_get (UsersStorage st) (AdoptionPayload.userId payload) = Some user"
    and "btree_get (PetsStorage st) (AdoptionPayload.petId payload) = Some pet"
  shows "(Pet.status pet \<noteq> ascii ''notAdopted'' \<longrightarrow>
            fileForAdoption e payload st
              = (Err (InvalidPayload (ascii ''Pet is not available for adoption.'')), st)) \<and>
         (Pet.status pet = ascii ''notAdopted'' \<longrightarrow>
            (\<exists>r st'. fileForAdoption e payload st = (Ok r, st') \<and>
               AdoptionRecords.status r = ascii ''pending'' \<and>
               AdoptionRecords.adoptionId r = uuid e \<and>
               AdoptionsStorage st' = btree_insert (uuid e) r (AdoptionsStorage st) \<and>
               btree_get (AdoptionsStorage st') (AdoptionRecords.adoptionId r) = Some r \<and>
               UsersStorage st'
                 = btree_insert (User.id user)
                     (user\<lparr>application := application user @ [AdoptionRecords.adoptionId r]\<rparr>)
                     (UsersStorage st) \<and>
               (storesOk st \<longrightarrow>
                  btree_get (UsersStorage st') (AdoptionPayload.userId payload)
                    = Some (user\<lparr>application :=
                              application user @ [AdoptionRecords.adoptionId r]\<rparr>)) \<and>
               PetsStorage st' = PetsStorage st \<and>
               btree_get (PetsStorage st') (AdoptionPayload.petId payload) = Some pet \<and>
               SheltersStorage st' = SheltersStorage st))"
proof (intro conjI impI)
  assume "Pet.status pet \<noteq> ascii ''notAdopted''"
  with assms show "fileForAdoption e payload st
      = (Err (InvalidPayload (ascii ''Pet is not available for adoption.'')), st)"
    by (rule fileForAdoption_unavailable)
next
  let ?user' = "user\<lparr>application := application user @ [uuid e]\<rparr>"
  assume "Pet.status pet = ascii ''notAdopted''"
  with assms obtain r where
    run: "fileForAdoption e payload st
            = (Ok r, st\<lparr>UsersStorage := btree_insert (User.id user) ?user' (UsersStorage st),
                        AdoptionsStorage := btree_insert (uuid e) r (AdoptionsStorage st)\<rparr>)" and
    r: "AdoptionRecords.adoptionId r = uuid e" "AdoptionRecords.status r = ascii ''pending''"
    using fileForAdoption_available [of payload st user pet e] by blast
  let ?st' = "st\<lparr>UsersStorage := btree_insert (User.id user) ?user' (UsersStorage st),
                 AdoptionsStorage := btree_insert (uuid e) r (AdoptionsStorage st)\<rparr>"
  have u: "storesOk st \<longrightarrow>
             btree_get (UsersStorage ?st') (AdoptionPayload.userId payload) = Some ?user'"
  proof
    assume "storesOk st"
    then have "keysOk User.id (UsersStorage st)" by (simp add: storesOk_def)
    from keysOk_get [OF this assms(2)] show
      "btree_get (UsersStorage ?st') (AdoptionPayload.userId payload) = Some ?user'"
      by (simp add: btree_get_insert)
  qed
  from run r u assms(3) show
    "\<exists>r st'. fileForAdoption e payload st = (Ok r, st') \<and>
       AdoptionRecords.status r = ascii ''pending'' \<and>
       AdoptionRecords.adoptionId r = uuid e \<and>
       AdoptionsStorage st' = btree_insert (uuid e) r (AdoptionsStorage st) \<and>
       btree_get (AdoptionsStorage st') (AdoptionRecords.adoptionId r) = Some r \<and>
       UsersStorage st'
         = btree_insert (User.id user)
             (user\<lparr>application := application user @ [AdoptionRecords.adoptionId r]\<rparr>)
             (UsersStorage st) \<and>
       (storesOk st \<longrightarrow>
          btree_get (UsersStorage st') (AdoptionPayload.userId payload)
            = Some (user\<lparr>application :=
                      application user @ [AdoptionRecords.adoptionId r]\<rparr>)) \<and>
       PetsStorage st' = PetsStorage st \<and>
       btree_get (PetsStorage st') (AdoptionPayload.petId payload) = Some pet \<and>
       SheltersStorage st' = SheltersStorage st"
    by (intro exI [of _ r] exI [of _ ?st']) (simp add: btree_get_insert)
qed

lemma registered_reachable: "reachable registered"
proof -
  have "freshTrace registration initial"
    by (simp add: ops data)
  with reachable_initial show ?thesis
    unfolding registered_def by (rule freshTrace_reachable)
qed

lemma oneCompleted_reachable: "reachable (run oneCompleted initial)"
proof -
  have "freshTrace oneCompleted initial"
    by (simp add: ops data)
  with reachable_initial show ?thesis
    by (rule freshTrace_reachable)
qed

text \<open>
  After the registration, Ann's request for \<open>p1\<close> is stored as a pending record and the
  pet store is as before; once \<open>p1\<close> has been adopted, Bob's request for it is rejected.
\<close>

theorem fileForAdoption_outcomes_witness:
  "fst (fileForAdoption (envWith ''a1'') (requestBy ''u1'') registered) = Ok annsRecord \<and>
   PetsStorage (snd (fileForAdoption (envWith ''a1'') (requestBy ''u1'') registered))
     = PetsStorage registered \<and>
   fileForAdoption (envWith ''a3'') (requestBy ''u2'') (run oneCompleted initial)
     = (Err (InvalidPayload (ascii ''Pet is not available for adoption.'')),
        run oneCompleted initial)"
proof -
  let ?adopted = "run oneCompleted initial"
  have u1: "btree_get (UsersStorage registered) (AdoptionPayload.userId (requestBy ''u1''))
              = Some annStored"
    by (simp add: ops data annStored_def)
  have p1: "btree_get (PetsStorage registered) (AdoptionPayload.petId (requestBy ''u1''))
              = Some rexStored"
    by (simp add: ops data)
  have free: "Pet.status rexStored = ascii ''notAdopted''"
    by (simp add: data)
  from fileForAdoption_outcomes [OF requestBy_u1_valid u1 p1, of "envWith ''a1''"] free
  obtain r st' where
    "fileForAdoption (envWith ''a1'') (requestBy ''u1'') registered = (Ok r, st')" and
    "PetsStorage st' = PetsStorage registered"
    by blast
  then have 2: "PetsStorage (snd (fileForAdoption (envWith ''a1'') (requestBy ''u1'') registered))
                  = PetsStorage registered"
    by simp
  have 1: "fst (fileForAdoption (envWith ''a1'') (requestBy ''u1'') registered) = Ok annsRecord"
    by (simp add: ops data)
  have u2: "btree_get (UsersStorage ?adopted) (AdoptionPayload.userId (requestBy ''u2''))
              = Some (bobStored\<lparr>application := [ascii ''a2'']\<rparr>)"
    by (simp add: ops data bobStored_def)
  have p2: "btree_get (PetsStorage ?adopted) (AdoptionPayload.petId (requestBy ''u2''))
              = Some (rexStored\<lparr>Pet.status := ascii ''adopted''\<rparr>)"
    by (simp add: ops data)
  have taken: "Pet.status (rexStored\<lparr>Pet.status := ascii ''adopted''\<rparr>) \<noteq> ascii ''notAdopted''"
    by (simp add: ascii_eq_iff)
  from fileForAdoption_outcomes [OF requestBy_u2_valid u2 p2, of "envWith ''a3''"] taken
  have 3: "fileForAdoption (envWith ''a3'') (requestBy ''u2'') ?adopted
             = (Err (InvalidPayload (ascii ''Pet is not available for adoption.'')), ?adopted)"
    by blast
  from 1 2 3 show ?thesis by blast
qed

text \<open>
  C3 as stated does not ask the payload to be valid. Ann's request with a blank reason
  names an existing user and an existing pet that is not adopted, and is rejected with
  \<open>ValidationError\<close>.
\<close>

theorem fileForAdoption_blank_reason_rejected:
  "reachable registered \<and>
   btree_get (UsersStorage registered) (AdoptionPayload.userId noReason) = Some annStored \<and>
   btree_get (PetsStorage registered) (AdoptionPayload.petId noReason) = Some rexStored \<and>
   Pet.status rexStored = ascii ''notAdopted'' \<and>
   fileForAdoption (envWith ''a1'') noReason registered
     = (Err (ValidationError (ascii ''Invalid adoption payload. Please check all fields.'')),
        registered)"
  using registered_reachable by (simp add: ops data data2 annStored_def)

text \<open>
  C8. The record of a successful \<open>fileForAdoption\<close>, which is the record stored under
  the new id, has the \<open>userPhoneNumber\<close> and the \<open>address\<close> of the stored user; of its
  other fields only \<open>reasonForAdoption\<close> is the payload's, the rest being read from the
  stored user and pet and from the environment. The payload's \<open>userPhoneNumber\<close> and
  \<open>address\<close> reach nothing but the validation: two payloads that differ only there and
  that the validation treats alike give the same reply and the same state.
\<close>

theorem fileForAdoption_contact_from_user:
  "(\<forall>r st'. fileForAdoption e payload st = (Ok r, st') \<longrightarrow>
      (\<exists>user pet.
         btree_get (UsersStorage st) (AdoptionPayload.userId payload) = Some user \<and>
         btree_get (PetsStorage st) (AdoptionPayload.petId payload) = Some pet \<and>
         r = \<lparr> AdoptionRecords.adoptionId = uuid e,
               AdoptionRecords.userId = User.id user,
               AdoptionRecords.petId = Pet.id pet,
               petName = Pet.name pet,
               AdoptionRecords.userName = User.name user,
               AdoptionRecords.userPhoneNumber = User.phoneNumber user,
               AdoptionRecords.address = User.address user,
               AdoptionRecords.reasonForAdoption = AdoptionPayload.reasonForAdoption payload,
               dateOfAdoption = now e,
               AdoptionRecords.status = ascii ''pending'' \<rparr> \<and>
         btree_get (AdoptionsStorage st') (AdoptionRecords.adoptionId r) = Some r)) \<and>
   (\<forall>phone addr.
      validateAdoptionPayload
        (payload\<lparr>AdoptionPayload.userPhoneNumber := phone, AdoptionPayload.address := addr\<rparr>)
        = validateAdoptionPayload payload \<longrightarrow>
      fileForAdoption e
        (payload\<lparr>AdoptionPayload.userPhoneNumber := phone, AdoptionPayload.address := addr\<rparr>) st
        = fileForAdoption e payload st)"
proof (intro conjI allI impI)
  fix r st'
  assume ok: "fileForAdoption e payload st = (Ok r, st')"
  from fileForAdoption_Ok [OF ok] obtain user pet where
    h: "validateAdoptionPayload payload"
      "btree_get (UsersStorage st) (AdoptionPayload.userId payload) = Some user"
      "btree_get (PetsStorage st) (AdoptionPayload.petId payload) = Some pet"
      "Pet.status pet = ascii ''notAdopted''"
    by blast
  from fileForAdoption_record [OF h, of e] ok have
    r: "r = \<lparr> AdoptionRecords.adoptionId = uuid e,
               AdoptionRecords.userId = User.id user,
               AdoptionRecords.petId = Pet.id pet,
               petName = Pet.name pet,
               AdoptionRecords.userName = User.name user,
               AdoptionRecords.userPhoneNumber = User.phoneNumber user,
               AdoptionRecords.address = User.address user,
               AdoptionRecords.reasonForAdoption = AdoptionPayload.reasonForAdoption payload,
               dateOfAdoption = now e,
               AdoptionRecords.status = ascii ''pending'' \<rparr>"
    by simp
  from fileForAdoption_available [OF h, of e] ok have
    "btree_get (AdoptionsStorage st') (AdoptionRecords.adoptionId r) = Some r"
    by (auto simp: btree_get_insert)
  with h(2,3) r show
    "\<exists>user pet.
       btree_get (UsersStorage st) (AdoptionPayload.userId payload) = Some user \<and>
       btree_get (PetsStorage st) (AdoptionPayload.petId payload) = Some pet \<and>
       r = \<lparr> AdoptionRecords.adoptionId = uuid e,
             AdoptionRecords.userId = User.id user,
             AdoptionRecords.petId = Pet.id pet,
             petName = Pet.name pet,
             AdoptionRecords.userName = User.name user,
             AdoptionRecords.userPhoneNumber = User.phoneNumber user,
             AdoptionRecords.address = User.address user,
             AdoptionRecords.reasonForAdoption = AdoptionPayload.reasonForAdoption payload,
             dateOfAdoption = now e,
             AdoptionRecords.status = ascii ''pending'' \<rparr> \<and>
       btree_get (AdoptionsStorage st') (AdoptionRecords.adoptionId r) = Some r"
    by blast
next
  fix phone addr
  assume "validateAdoptionPayload
            (payload\<lparr>AdoptionPayload.userPhoneNumber := phone, AdoptionPayload.address := addr\<rparr>)
            = validateAdoptionPayload payload"
  then show "fileForAdoption e
      (payload\<lparr>AdoptionPayload.userPhoneNumber := phone, AdoptionPayload.address := addr\<rparr>) st
      = fileForAdoption e payload st"
    by (simp add: fileForAdoption_def split: option.splits)
qed

text \<open>
  Ann's request gives \<open>0700000000\<close> and \<open>elsewhere\<close>; the record has the phone number and
  the address of the user record. The same request with other contact details is
  answered in the same way.
\<close>

theorem fileForAdoption_contact_from_user_witness:
  "fst (fileForAdoption (envWith ''a1'') (requestBy ''u1'') registered) = Ok annsRecord \<and>
   AdoptionRecords.userPhoneNumber annsRecord = User.phoneNumber annStored \<and>
   AdoptionRecords.address annsRecord = User.address annStored \<and>
   AdoptionPayload.userPhoneNumber (requestBy ''u1'') \<noteq> User.phoneNumber annStored \<and>
   AdoptionPayload.address (requestBy ''u1'') \<noteq> User.address annStored \<and>
   fileForAdoption (envWith ''a1'') otherContact registered
     = fileForAdoption (envWith ''a1'') (requestBy ''u1'') registered"
proof -
  let ?call = "fileForAdoption (envWith ''a1'') (requestBy ''u1'') registered"
  have ok: "?call = (Ok annsRecord, snd ?call)"
    by (simp add: ops data)
  have u: "btree_get (UsersStorage registered) (AdoptionPayload.userId (requestBy ''u1''))
             = Some annStored"
    by (simp add: ops data annStored_def)
  from fileForAdoption_contact_from_user [of "envWith ''a1''" "requestBy ''u1''" registered]
    ok
  obtain user pet where
    "btree_get (UsersStorage registered) (AdoptionPayload.userId (requestBy ''u1'')) = Some user"
    and "btree_get (PetsStorage registered) (AdoptionPayload.petId (requestBy ''u1'')) = Some pet"
    and "annsRecord
      = \<lparr> AdoptionRecords.adoptionId = uuid (envWith ''a1''),
            AdoptionRecords.userId = User.id user,
            AdoptionRecords.petId = Pet.id pet,
            petName = Pet.name pet,
            AdoptionRecords.userName = User.name user,
            AdoptionRecords.userPhoneNumber = User.phoneNumber user,
            AdoptionRecords.address = User.address user,
            AdoptionRecords.reasonForAdoption
              = AdoptionPayload.reasonForAdoption (requestBy ''u1''),
            dateOfAdoption = now (envWith ''a1''),
            AdoptionRecords.status = ascii ''pending'' \<rparr>"
    by blast
  with u have "annsRecord
      = \<lparr> AdoptionRecords.adoptionId = uuid (envWith ''a1''),
            AdoptionRecords.userId = User.id annStored,
            AdoptionRecords.petId = Pet.id pet,
            petName = Pet.name pet,
            AdoptionRecords.userName = User.name annStored,
            AdoptionRecords.userPhoneNumber = User.phoneNumber annStored,
            AdoptionRecords.address = User.address annStored,
            AdoptionRecords.reasonForAdoption
              = AdoptionPayload.reasonForAdoption (requestBy ''u1''),
            dateOfAdoption = now (envWith ''a1''),
            AdoptionRecords.status = ascii ''pending'' \<rparr>"
    by simp
  then have 1: "AdoptionRecords.userPhoneNumber annsRecord = User.phoneNumber annStored \<and>
           AdoptionRecords.address annsRecord = User.address annStored"
    by (metis AdoptionRecords.select_convs(6,7))
  have other: "otherContact
      = (requestBy ''u1'')\<lparr>AdoptionPayload.userPhoneNumber := ascii ''0755555555'',
                            AdoptionPayload.address := ascii ''nowhere''\<rparr>"
    by (simp add: otherContact_def requestBy_def)
  have "validateAdoptionPayload otherContact = validateAdoptionPayload (requestBy ''u1'')"
    by (simp add: otherContact_valid requestBy_u1_valid)
  with fileForAdoption_contact_from_user [of "envWith ''a1''" "requestBy ''u1''" registered]
  have 2: "fileForAdoption (envWith ''a1'') otherContact registered = ?call"
    unfolding other by blast
  have 3: "AdoptionPayload.userPhoneNumber (requestBy ''u1'') \<noteq> User.phoneNumber annStored"
    "AdoptionPayload.address (requestBy ''u1'') \<noteq> User.address annStored"
    by (simp_all add: requestBy_def annStored_def ascii_eq_iff)
  from ok have 0: "fst ?call = Ok annsRecord" by (metis fst_conv)
  from 0 1 2 3 show ?thesis by blast
qed

section \<open>Failing an adoption\<close>

lemma failAdoption_absent:
  "btree_get (AdoptionsStorage st) adoptionId' = None \<Longrightarrow>
   failAdoption adoptionId' st = (Err (NotFound (ascii ''Adoption record not found.'')), st)"
  by (simp add: failAdoption_def)

lemma failAdoption_not_pending:
  "btree_get (AdoptionsStorage st) adoptionId' = Some adoption \<Longrightarrow>
   AdoptionRecords.status adoption \<noteq> ascii ''pending'' \<Longrightarrow>
   failAdoption adoptionId' st
     = (Err (InvalidPayload (ascii ''Only pending adoptions can be failed.'')), st)"
  by (simp add: failAdoption_def)

lemma failAdoption_fails:
  assumes "btree_get (AdoptionsStorage st) adoptionId' = Some adoption"
    and "AdoptionRecords.status adoption = ascii ''pending''"
  shows "failAdoption adoptionId' st
           = (Ok (adoption\<lparr>AdoptionRecords.status := ascii ''failed''\<rparr>),
              st\<lparr>AdoptionsStorage :=
                   btree_insert adoptionId'
                     (adoption\<lparr>AdoptionRecords.status := ascii ''failed''\<rparr>)
                     (AdoptionsStorage st)\<rparr>)"
  using assms by (simp add: failAdoption_def Let_def)

lemma failAdoption_Ok:
  assumes "failAdoption adoptionId' st = (Ok r, st')"
  shows "\<exists>adoption.
           btree_get (AdoptionsStorage st) adoptionId' = Some adoption \<and>
           AdoptionRecords.status adoption = ascii ''pending'' \<and>
           r = adoption\<lparr>AdoptionRecords.status := ascii ''failed''\<rparr> \<and>
           st' = st\<lparr>AdoptionsStorage := btree_insert adoptionId' r (AdoptionsStorage st)\<rparr>"
  using assms
  by (auto simp: failAdoption_def Let_def split: option.splits if_splits)

lemma failAdoption_pets_unchanged:
  "failAdoption adoptionId' st = (r, st') \<Longrightarrow> PetsStorage st' = PetsStorage st"
  by (auto simp: failAdoption_def Let_def split: option.splits if_splits)

text \<open>
  What holds of the last part of C5: a valid request for a pet that is still \<open>notAdopted\<close>
  succeeds after a successful \<open>failAdoption\<close>.
\<close>

lemma refile_after_failAdoption:
  assumes "failAdoption adoptionId' st = (Ok r, st')"
    and "validateAdoptionPayload payload"
    and "btree_get (UsersStorage st) (AdoptionPayload.userId payload) = Some user"
    and "btree_get (PetsStorage st) (AdoptionPayload.petId payload) = Some pet"
    and "Pet.status pet = ascii ''notAdopted''"
  shows "\<exists>r' st''. fileForAdoption e payload st' = (Ok r', st'')"
proof -
  from failAdoption_Ok [OF assms(1)] have
    "UsersStorage st' = UsersStorage st" "PetsStorage st' = PetsStorage st"
    by auto
  with assms(3,4) have
    "btree_get (UsersStorage st') (AdoptionPayload.userId payload) = Some user"
    "btree_get (PetsStorage st') (AdoptionPayload.petId payload) = Some pet"
    by simp_all
  from fileForAdoption_available [OF assms(2) this assms(5), of e] show ?thesis
    by blast
qed

text \<open>
  C5. The claim is that after a successful \<open>failAdoption\<close> the pet of the record is
  \<open>notAdopted\<close>, so that a valid request for it succeeds. In the reachable state where
  Ann and Bob have both filed for \<open>p1\<close> and Ann's adoption has been completed, Bob's
  record \<open>a2\<close> is still pending; \<open>failAdoption\<close> of \<open>a2\<close> succeeds, and Ann's next valid
  request for \<open>p1\<close> is rejected with \<open>InvalidPayload\<close>, since \<open>p1\<close> is adopted.
\<close>

theorem refiling_rejected_after_failAdoption:
  "reachable (run oneCompleted initial) \<and>
   btree_get (AdoptionsStorage (run oneCompleted initial)) (ascii ''a2'') = Some bobsRecord \<and>
   fst (failAdoption (ascii ''a2'') (run oneCompleted initial))
     = Ok (bobsRecord\<lparr>AdoptionRecords.status := ascii ''failed''\<rparr>) \<and>
   validateAdoptionPayload (requestBy ''u1'') \<and>
   fst (fileForAdoption (envWith ''a3'') (requestBy ''u1'')
          (snd (failAdoption (ascii ''a2'') (run oneCompleted initial))))
     = Err (InvalidPayload (ascii ''Pet is not available for adoption.''))"
  using oneCompleted_reachable requestBy_u1_valid by (simp add: ops data)

section \<open>The shape of the stores\<close>

lemma keysOk_iff:
  "keysOk ident m \<longleftrightarrow>
     distinct (map fst m) \<and> (\<forall>k v. btree_get m k = Some v \<longrightarrow> ident v = k)"
  by (auto simp: keysOk_def btree_get_def list_all_iff)

lemma keysOk_insert: "keysOk ident m \<Longrightarrow> ident v = k \<Longrightarrow> keysOk ident (btree_insert k v m)"
  unfolding keysOk_iff
  by (auto simp: btree_get_insert distinct_btree_insert split: if_splits)

lemma keysOk_Nil: "keysOk ident []"
  by (simp add: keysOk_def)

lemma storesOk_initial: "storesOk initial"
  by (simp add: storesOk_def initial_def keysOk_Nil)

lemma addUser_storesOk: "storesOk st \<Longrightarrow> storesOk (snd (addUser e payload st))"
  by (simp add: addUser_def Let_def storesOk_def keysOk_insert)

lemma createShelter_storesOk: "storesOk st \<Longrightarrow> storesOk (snd (createShelter e payload st))"
  by (simp add: createShelter_def Let_def storesOk_def keysOk_insert)

lemma addPet_storesOk: "storesOk st \<Longrightarrow> storesOk (snd (addPet e payload st))"
  by (simp add: addPet_def Let_def storesOk_def keysOk_insert split: option.splits)

lemma addPetImage_storesOk: "storesOk st \<Longrightarrow> storesOk (snd (addPetImage payload st))"
  by (simp add: addPetImage_def Let_def storesOk_def keysOk_insert split: option.splits)

lemma updatePetInfo_storesOk: "storesOk st \<Longrightarrow> storesOk (snd (updatePetInfo payload st))"
  by (simp add: updatePetInfo_def Let_def storesOk_def keysOk_insert split: option.splits)

lemma updateShelterInfo_storesOk:
  assumes "storesOk st"
  shows "storesOk (snd (updateShelterInfo payload st))"
proof (cases "btree_get (SheltersStorage st) (UpdateShelterPayload.id payload)")
  case None
  with assms show ?thesis by (simp add: updateShelterInfo_def)
next
  case (Some shelter)
  from assms have "keysOk Shelter.id (SheltersStorage st)" by (simp add: storesOk_def)
  from keysOk_get [OF this Some] have "Shelter.id shelter = UpdateShelterPayload.id payload" .
  with assms Some show ?thesis
    by (simp add: updateShelterInfo_def Let_def storesOk_def keysOk_insert)
qed

lemma fileForAdoption_storesOk: "storesOk st \<Longrightarrow> storesOk (snd (fileForAdoption e payload st))"
  by (simp add: fileForAdoption_def Let_def storesOk_def keysOk_insert split: option.splits)

lemma completeAdoption_storesOk:
  assumes "storesOk st"
  shows "storesOk (snd (completeAdoption adoptionId' st))"
proof (cases "btree_get (AdoptionsStorage st) adoptionId'")
  case None
  with assms show ?thesis by (simp add: completeAdoption_def)
next
  case (Some adoption)
  from assms have "keysOk AdoptionRecords.adoptionId (AdoptionsStorage st)"
    by (simp add: storesOk_def)
  from keysOk_get [OF this Some] have "AdoptionRecords.adoptionId adoption = adoptionId'" .
  with assms Some show ?thesis
    by (simp add: completeAdoption_def Let_def storesOk_def keysOk_insert split: option.splits)
qed

lemma failAdoption_storesOk:
  assumes "storesOk st"
  shows "storesOk (snd (failAdoption adoptionId' st))"
proof (cases "btree_get (AdoptionsStorage st) adoptionId'")
  case None
  with assms show ?thesis by (simp add: failAdoption_def)
next
  case (Some adoption)
  from assms have "keysOk AdoptionRecords.adoptionId (AdoptionsStorage st)"
    by (simp add: storesOk_def)
  from keysOk_get [OF this Some] have "AdoptionRecords.adoptionId adoption = adoptionId'" .
  with assms Some show ?thesis
    by (simp add: failAdoption_def Let_def storesOk_def keysOk_insert)
qed

lemma Canister_storesOk: "storesOk st \<Longrightarrow> storesOk (snd (Canister e m st))"
proof (cases m)
  case (AddUser p)
  assume "storesOk st"
  from addUser_storesOk [OF this, of e p] AddUser show ?thesis
    by (simp add: split_beta)
next
  case (AddPet p)
  assume "storesOk st"
  from addPet_storesOk [OF this, of e p] AddPet show ?thesis
    by (simp add: split_beta)
next
  case (AddPetImage p)
  assume "storesOk st"
  from addPetImage_storesOk [OF this, of p] AddPetImage show ?thesis
    by (simp add: split_beta)
next
  case (UpdatePetInfo p)
  assume "storesOk st"
  from updatePetInfo_storesOk [OF this, of p] UpdatePetInfo show ?thesis
    by (simp add: split_beta)
next
  case (CreateShelter p)
  assume "storesOk st"
  from createShelter_storesOk [OF this, of e p] CreateShelter show ?thesis
    by (simp add: split_beta)
next
  case (UpdateShelterInfo p)
  assume "storesOk st"
  from updateShelterInfo_storesOk [OF this, of p] UpdateShelterInfo show ?thesis
    by (simp add: split_beta)
next
  case (FileForAdoption p)
  assume "storesOk st"
  from fileForAdoption_storesOk [OF this, of e p] FileForAdoption show ?thesis
    by (simp add: split_beta)
next
  case (UpdateAdoptionRecord p)
  assume "storesOk st"
  with updateAdoptionRecord_state [of p st] UpdateAdoptionRecord show ?thesis
    by (simp add: split_beta)
next
  case (CompleteAdoption a)
  assume "storesOk st"
  from completeAdoption_storesOk [OF this, of a] CompleteAdoption show ?thesis
    by (simp add: split_beta)
next
  case (FailAdoption a)
  assume "storesOk st"
  from failAdoption_storesOk [OF this, of a] FailAdoption show ?thesis
    by (simp add: split_beta)
qed simp_all

lemma reachable_storesOk: "reachable st \<Longrightarrow> storesOk st"
  by (induction rule: reachable.induct) (simp_all add: storesOk_initial Canister_storesOk)

section \<open>The order of the keys\<close>

lemma storesSorted_initial: "storesSorted initial"
  by (simp add: storesSorted_def initial_def)

lemma Canister_storesSorted: "storesSorted st \<Longrightarrow> storesSorted (snd (Canister e m st))"
proof (cases m)
  case (AddUser p)
  assume "storesSorted st"
  with AddUser show ?thesis
    by (simp add: split_beta addUser_def Let_def storesSorted_def sorted_btree_insert)
next
  case (AddPet p)
  assume "storesSorted st"
  with AddPet show ?thesis
    by (simp add: split_beta addPet_def Let_def storesSorted_def sorted_btree_insert
          split: option.splits)
next
  case (AddPetImage p)
  assume "storesSorted st"
  with AddPetImage show ?thesis
    by (simp add: split_beta addPetImage_def Let_def storesSorted_def sorted_btree_insert
          split: option.splits)
next
  case (UpdatePetInfo p)
  assume "storesSorted st"
  with UpdatePetInfo show ?thesis
    by (simp add: split_beta updatePetInfo_def Let_def storesSorted_def sorted_btree_insert
          split: option.splits)
next
  case (CreateShelter p)
  assume "storesSorted st"
  with CreateShelter show ?thesis
    by (simp add: split_beta createShelter_def Let_def storesSorted_def sorted_btree_insert)
next
  case (UpdateShelterInfo p)
  assume "storesSorted st"
  with UpdateShelterInfo show ?thesis
    by (simp add: split_beta updateShelterInfo_def Let_def storesSorted_def sorted_btree_insert
          split: option.splits)
next
  case (FileForAdoption p)
  assume "storesSorted st"
  with FileForAdoption show ?thesis
    by (simp add: split_beta fileForAdoption_def Let_def storesSorted_def sorted_btree_insert
          split: option.splits)
next
  case (UpdateAdoptionRecord p)
  assume "storesSorted st"
  with updateAdoptionRecord_state [of p st] UpdateAdoptionRecord show ?thesis
    by (simp add: split_beta)
next
  case (CompleteAdoption a)
  assume "storesSorted st"
  with CompleteAdoption show ?thesis
    by (simp add: split_beta completeAdoption_def Let_def storesSorted_def sorted_btree_insert
          split: option.splits)
next
  case (FailAdoption a)
  assume "storesSorted st"
  with FailAdoption show ?thesis
    by (simp add: split_beta failAdoption_def Let_def storesSorted_def sorted_btree_insert
          split: option.splits)
qed simp_all

text \<open>
  In every reachable state each store lists its entries in the order of their keys, so
  that \<open>btree_values\<close> is the sequence that \<open>values()\<close> returns.
\<close>

lemma reachable_storesSorted: "reachable st \<Longrightarrow> storesSorted st"
  by (induction rule: reachable.induct) (simp_all add: storesSorted_initial Canister_storesSorted)

text \<open>
  The owner queries return the first match in that order: of two users of one caller,
  the one with the smaller id, whichever was added first.
\<close>

lemma getUserOwner_first_by_key:
  "getUserOwner (envWith ''zz'')
     (run [(envWith ''u2'', AddUser bob), (envWith ''u1'', AddUser ann)] initial)
     = Ok annStored"
  by (simp add: ops data annStored_def)

section \<open>Shelters and their pets\<close>

lemma values_insert_all:
  assumes "P v" and "list_all P (btree_values m)"
  shows "list_all P (btree_values (btree_insert k v m))"
  using assms set_btree_insert_subset [of k v m]
  by (auto simp: btree_values_def list_all_iff)

lemma get_in_values: "btree_get m k = Some v \<Longrightarrow> v \<in> set (btree_values m)"
  by (auto simp: btree_get_def btree_values_def dest!: map_of_SomeD intro: rev_image_eqI)

lemma petOfShelter_iff:
  "petOfShelter st shelter pid \<longleftrightarrow>
     (\<exists>pet. btree_get (PetsStorage st) pid = Some pet \<and> Pet.shelterId pet = Shelter.id shelter)"
  by (simp add: petOfShelter_def split: option.splits)

text \<open>The property reads the pet store and the shelter store only.\<close>

lemma shelterPetsOk_cong:
  assumes "PetsStorage st' = PetsStorage st" and "SheltersStorage st' = SheltersStorage st"
  shows "shelterPetsOk st' = shelterPetsOk st"
proof -
  have "petOfShelter st' = petOfShelter st"
    by (intro ext) (simp add: petOfShelter_def assms)
  then show ?thesis by (simp add: shelterPetsOk_def assms)
qed

text \<open>Replacing a pet by one of the same shelter.\<close>

lemma shelterPetsOk_pet_replaced:
  assumes ok: "shelterPetsOk st"
    and old: "btree_get (PetsStorage st) k = Some pet"
    and same: "Pet.shelterId pet' = Pet.shelterId pet"
    and pets: "PetsStorage st' = btree_insert k pet' (PetsStorage st)"
    and shelters: "SheltersStorage st' = SheltersStorage st"
  shows "shelterPetsOk st'"
proof -
  have "petOfShelter st' shelter pid" if "petOfShelter st shelter pid" for shelter pid
    using that old same by (auto simp: petOfShelter_iff pets btree_get_insert)
  with ok show ?thesis
    by (auto simp: shelterPetsOk_def shelters list_all_iff)
qed

lemma addPetImage_shelterPetsOk:
  assumes "storesOk st" and "shelterPetsOk st"
  shows "shelterPetsOk (snd (addPetImage payload st))"
proof (cases "btree_get (PetsStorage st) (PetImage.petId payload)")
  case None
  with assms show ?thesis by (simp add: addPetImage_def)
next
  case (Some pet)
  from assms(1) have "keysOk Pet.id (PetsStorage st)" by (simp add: storesOk_def)
  from keysOk_get [OF this Some] have k: "Pet.id pet = PetImage.petId payload" .
  show ?thesis
    by (rule shelterPetsOk_pet_replaced [OF assms(2) Some,
          of "pet\<lparr>Pet.petImage := PetImage.petImage payload\<rparr>"])
       (simp_all add: addPetImage_def Let_def Some k)
qed

lemma updatePetInfo_shelterPetsOk:
  assumes "storesOk st" and "shelterPetsOk st"
  shows "shelterPetsOk (snd (updatePetInfo payload st))"
proof (cases "btree_get (PetsStorage st) (UpdatePetPayload.petId payload)")
  case None
  with assms show ?thesis by (simp add: updatePetInfo_def)
next
  case (Some pet)
  let ?merged = "pet\<lparr>Pet.healthStatus := UpdatePetPayload.healthStatus payload,
                       Pet.age := UpdatePetPayload.age payload\<rparr>"
  from assms(1) have "keysOk Pet.id (PetsStorage st)" by (simp add: storesOk_def)
  from keysOk_get [OF this Some] have k: "Pet.id pet = UpdatePetPayload.petId payload" .
  show ?thesis
  proof (cases "validatePetPayload (petFields ?merged)")
    case False
    with assms Some show ?thesis by (simp add: updatePetInfo_def)
  next
    case True
    show ?thesis
      by (rule shelterPetsOk_pet_replaced [OF assms(2) Some, of ?merged])
         (simp_all add: updatePetInfo_def Let_def Some k True)
  qed
qed

lemma completeAdoption_shelterPetsOk:
  assumes "storesOk st" and "shelterPetsOk st"
  shows "shelterPetsOk (snd (completeAdoption adoptionId' st))"
proof (cases "\<exists>r. fst (completeAdoption adoptionId' st) = Ok r")
  case False
  then obtain err where "fst (completeAdoption adoptionId' st) = Err err"
    by (cases "fst (completeAdoption adoptionId' st)") auto
  then have "completeAdoption adoptionId' st = (Err err, snd (completeAdoption adoptionId' st))"
    by (metis prod.collapse)
  from completeAdoption_Err [OF this] assms(2) show ?thesis by simp
next
  case True
  then obtain r where "completeAdoption adoptionId' st = (Ok r, snd (completeAdoption adoptionId' st))"
    by (metis prod.collapse)
  from completeAdoption_Ok [OF this] obtain adoption pet where
    "btree_get (AdoptionsStorage st) adoptionId' = Some adoption" and
    p: "btree_get (PetsStorage st) (AdoptionRecords.petId adoption) = Some pet" and
    st': "snd (completeAdoption adoptionId' st)
            = st\<lparr>PetsStorage :=
                    btree_insert (Pet.id pet) (pet\<lparr>Pet.status := ascii ''adopted''\<rparr>)
                      (PetsStorage st),
                  AdoptionsStorage := btree_insert adoptionId' r (AdoptionsStorage st)\<rparr>"
    by blast
  from assms(1) have "keysOk Pet.id (PetsStorage st)" by (simp add: storesOk_def)
  from keysOk_get [OF this p] have k: "Pet.id pet = AdoptionRecords.petId adoption" .
  show ?thesis
    by (rule shelterPetsOk_pet_replaced [OF assms(2) p,
          of "pet\<lparr>Pet.status := ascii ''adopted''\<rparr>"])
       (simp_all add: st' k)
qed

text \<open>Storing a shelter whose pets are in order.\<close>

lemma shelterPetsOk_shelter_stored:
  assumes ok: "shelterPetsOk st"
    and new: "list_all (petOfShelter st shelter) (pets shelter)"
    and pets: "PetsStorage st' = PetsStorage st"
    and shelters: "SheltersStorage st' = btree_insert k shelter (SheltersStorage st)"
  shows "shelterPetsOk st'"
proof -
  have "petOfShelter st' = petOfShelter st"
    by (intro ext) (simp add: petOfShelter_def pets)
  with ok new show ?thesis
    by (simp add: shelterPetsOk_def shelters values_insert_all)
qed

lemma createShelter_shelterPetsOk:
  assumes "shelterPetsOk st"
  shows "shelterPetsOk (snd (createShelter e payload st))"
proof (cases "validateShelterPayload payload")
  case False
  with assms show ?thesis by (simp add: createShelter_def)
next
  case True
  show ?thesis
    by (rule shelterPetsOk_shelter_stored [OF assms, where k = "uuid e" and
          shelter = "\<lparr> Shelter.id = uuid e, Shelter.principal = caller e,
                       Shelter.name = ShelterPayload.name payload,
                       Shelter.location = ShelterPayload.location payload,
                       Shelter.phoneNumber = ShelterPayload.phoneNumber payload,
                       Shelter.email = ShelterPayload.email payload, pets = [] \<rparr>"])
       (simp_all add: createShelter_def Let_def True)
qed

lemma shelter_pets_in_order:
  assumes "shelterPetsOk st" and "btree_get (SheltersStorage st) k = Some shelter"
  shows "list_all (petOfShelter st shelter) (pets shelter)"
  using assms get_in_values [OF assms(2)]
  by (auto simp: shelterPetsOk_def list_all_iff)

lemma updateShelterInfo_shelterPetsOk:
  assumes "storesOk st" and "shelterPetsOk st"
  shows "shelterPetsOk (snd (updateShelterInfo payload st))"
proof (cases "btree_get (SheltersStorage st) (UpdateShelterPayload.id payload)")
  case None
  with assms show ?thesis by (simp add: updateShelterInfo_def)
next
  case (Some shelter)
  let ?merged = "shelter\<lparr>Shelter.id := UpdateShelterPayload.id payload,
                           Shelter.phoneNumber := UpdateShelterPayload.phoneNumber payload,
                           Shelter.email := UpdateShelterPayload.email payload\<rparr>"
  from assms(1) have "keysOk Shelter.id (SheltersStorage st)" by (simp add: storesOk_def)
  from keysOk_get [OF this Some] have k: "Shelter.id shelter = UpdateShelterPayload.id payload" .
  show ?thesis
  proof (cases "validateShelterPayload (shelterFields ?merged)")
    case False
    with assms Some show ?thesis by (simp add: updateShelterInfo_def)
  next
    case True
    from shelter_pets_in_order [OF assms(2) Some] k
    have "list_all (petOfShelter st ?merged) (pets ?merged)"
      by (simp add: petOfShelter_iff list_all_iff)
    then show ?thesis
      by (rule shelterPetsOk_shelter_stored [OF assms(2), where k = "Shelter.id shelter"])
         (simp_all add: updateShelterInfo_def Let_def Some True)
  qed
qed

text \<open>
  \<open>addPet\<close>: the new pet goes under a fresh key, so the pets that the lists name are as
  before; the shelter's list gets the new key, whose pet has the shelter's id.
\<close>

lemma addPet_adds:
  assumes "validatePetPayload payload"
    and "btree_get (SheltersStorage st) (PetPayload.shelterId payload) = Some shelter"
  shows "addPet e payload st
           = (Ok \<lparr> Pet.id = uuid e, Pet.name = PetPayload.name payload,
                    Pet.species = PetPayload.species payload,
                    Pet.breed = PetPayload.breed payload,
                    Pet.gender = PetPayload.gender payload,
                    Pet.age = PetPayload.age payload,
                    Pet.petImage = PetPayload.petImage payload,
                    Pet.description = PetPayload.description payload,
                    Pet.healthStatus = PetPayload.healthStatus payload,
                    Pet.shelterId = PetPayload.shelterId payload,
                    Pet.status = ascii ''notAdopted'' \<rparr>,
              st\<lparr>PetsStorage :=
                   btree_insert (uuid e)
                     \<lparr> Pet.id = uuid e, Pet.name = PetPayload.name payload,
                       Pet.species = PetPayload.species payload,
                       Pet.breed = PetPayload.breed payload,
                       Pet.gender = PetPayload.gender payload,
                       Pet.age = PetPayload.age payload,
                       Pet.petImage = PetPayload.petImage payload,
                       Pet.description = PetPayload.description payload,
                       Pet.healthStatus = PetPayload.healthStatus payload,
                       Pet.shelterId = PetPayload.shelterId payload,
                       Pet.status = ascii ''notAdopted'' \<rparr> (PetsStorage st),
                 SheltersStorage :=
                   btree_insert (Shelter.id shelter)
                     (shelter\<lparr>pets := pets shelter @ [uuid e]\<rparr>) (SheltersStorage st)\<rparr>)"
  using assms by (simp add: addPet_def Let_def)

lemma addPet_Ok:
  assumes "addPet e payload st = (Ok pet, st')"
  shows "\<exists>shelter.
           validatePetPayload payload \<and>
           btree_get (SheltersStorage st) (PetPayload.shelterId payload) = Some shelter \<and>
           Pet.id pet = uuid e \<and>
           Pet.shelterId pet = PetPayload.shelterId payload \<and>
           Pet.status pet = ascii ''notAdopted'' \<and>
           st' = st\<lparr>PetsStorage := btree_insert (uuid e) pet (PetsStorage st),
                    SheltersStorage :=
                      btree_insert (Shelter.id shelter)
                        (shelter\<lparr>pets := pets shelter @ [uuid e]\<rparr>) (SheltersStorage st)\<rparr>"
  using assms
  by (auto simp: addPet_def Let_def split: if_splits option.splits)

lemma addPet_shelterPetsOk:
  assumes wf: "storesOk st" and ok: "shelterPetsOk st"
    and fresh: "btree_get (PetsStorage st) (uuid e) = None"
  shows "shelterPetsOk (snd (addPet e payload st))"
proof (cases "\<exists>pet. fst (addPet e payload st) = Ok pet")
  case False
  then obtain err where "fst (addPet e payload st) = Err err"
    by (cases "fst (addPet e payload st)") auto
  then have "addPet e payload st = (Err err, snd (addPet e payload st))"
    by (metis prod.collapse)
  from addPet_Err [OF this] ok show ?thesis by simp
next
  case True
  then obtain pet where "addPet e payload st = (Ok pet, snd (addPet e payload st))"
    by (metis prod.collapse)
  from addPet_Ok [OF this] obtain shelter where
    s: "btree_get (SheltersStorage st) (PetPayload.shelterId payload) = Some shelter" and
    pet: "Pet.shelterId pet = PetPayload.shelterId payload" and
    st': "snd (addPet e payload st)
            = st\<lparr>PetsStorage := btree_insert (uuid e) pet (PetsStorage st),
                  SheltersStorage :=
                    btree_insert (Shelter.id shelter)
                      (shelter\<lparr>pets := pets shelter @ [uuid e]\<rparr>) (SheltersStorage st)\<rparr>"
    by blast
  let ?st1 = "st\<lparr>PetsStorage := btree_insert (uuid e) pet (PetsStorage st)\<rparr>"
  let ?shelter' = "shelter\<lparr>pets := pets shelter @ [uuid e]\<rparr>"
  from wf have "keysOk Shelter.id (SheltersStorage st)" by (simp add: storesOk_def)
  from keysOk_get [OF this s] have k: "Shelter.id shelter = PetPayload.shelterId payload" .
  have keep: "petOfShelter ?st1 sh pid" if "petOfShelter st sh pid" for sh pid
    using that fresh by (auto simp: petOfShelter_iff btree_get_insert)
  with ok have ok1: "shelterPetsOk ?st1"
    by (auto simp: shelterPetsOk_def list_all_iff)
  from shelter_pets_in_order [OF ok s] keep
  have "list_all (petOfShelter ?st1 shelter) (pets shelter)"
    by (auto simp: list_all_iff)
  moreover have "petOfShelter ?st1 shelter (uuid e)"
    by (simp add: petOfShelter_iff btree_get_insert pet k)
  ultimately have "list_all (petOfShelter ?st1 ?shelter') (pets ?shelter')"
    by (simp add: petOfShelter_iff list_all_iff)
  then show ?thesis
    by (rule shelterPetsOk_shelter_stored [OF ok1, where k = "Shelter.id shelter"])
       (simp_all add: st')
qed

lemma unchanged_shelterPetsOk:
  "shelterPetsOk st \<Longrightarrow> shelterPetsOk (snd (addUser e p st))"
  "shelterPetsOk st \<Longrightarrow> shelterPetsOk (snd (fileForAdoption e q st))"
  "shelterPetsOk st \<Longrightarrow> shelterPetsOk (snd (failAdoption a st))"
  by (rule shelterPetsOk_cong [THEN iffD2];
      simp add: addUser_def fileForAdoption_def failAdoption_def Let_def split: option.splits)+

lemma Canister_shelterPetsOk:
  assumes wf: "storesOk st" and ok: "shelterPetsOk st" and fresh: "freshUuid e st"
  shows "shelterPetsOk (snd (Canister e m st))"
proof (cases m)
  case (AddUser p)
  with unchanged_shelterPetsOk(1) [OF ok, of e p] show ?thesis
    by (simp add: split_beta)
next
  case GetUserOwner
  with ok show ?thesis by simp
next
  case (AddPet p)
  from fresh have "btree_get (PetsStorage st) (uuid e) = None"
    by (simp add: freshUuid_def)
  from addPet_shelterPetsOk [OF wf ok this, of p] AddPet show ?thesis
    by (simp add: split_beta)
next
  case (AddPetImage p)
  with addPetImage_shelterPetsOk [OF wf ok, of p] show ?thesis
    by (simp add: split_beta)
next
  case (UpdatePetInfo p)
  with updatePetInfo_shelterPetsOk [OF wf ok, of p] show ?thesis
    by (simp add: split_beta)
next
  case (CreateShelter p)
  with createShelter_shelterPetsOk [OF ok, of e p] show ?thesis
    by (simp add: split_beta)
next
  case GetShelterOwner
  with ok show ?thesis by simp
next
  case (UpdateShelterInfo p)
  with updateShelterInfo_shelterPetsOk [OF wf ok, of p] show ?thesis
    by (simp add: split_beta)
next
  case (FileForAdoption p)
  with unchanged_shelterPetsOk(2) [OF ok, of e p] show ?thesis
    by (simp add: split_beta)
next
  case (UpdateAdoptionRecord p)
  with ok updateAdoptionRecord_state [of p st] show ?thesis
    by (simp add: split_beta)
next
  case (CompleteAdoption a)
  with completeAdoption_shelterPetsOk [OF wf ok, of a] show ?thesis
    by (simp add: split_beta)
next
  case (FailAdoption a)
  with unchanged_shelterPetsOk(3) [OF ok, of a] show ?thesis
    by (simp add: split_beta)
qed

lemma shelterPetsOk_initial: "shelterPetsOk initial"
  by (simp add: shelterPetsOk_def initial_def btree_values_def)

lemma reachable_shelterPetsOk: "reachable st \<Longrightarrow> shelterPetsOk st"
proof (induction rule: reachable.induct)
  case reachable_initial
  show ?case by (rule shelterPetsOk_initial)
next
  case (reachable_call st e m)
  from reachable_storesOk [OF reachable_call.hyps(1)] reachable_call.IH reachable_call.hyps(2)
  show ?case by (rule Canister_shelterPetsOk)
qed

lemma count_list_snoc_fresh: "x \<notin> set xs \<Longrightarrow> count_list (xs @ [x]) x = 1"
  by (simp add: count_list_0_iff)

lemma updatePetInfo_shelterId:
  assumes wf: "storesOk st" and old: "btree_get (PetsStorage st) k = Some pet"
  shows "\<exists>pet'. btree_get (PetsStorage (snd (updatePetInfo payload st))) k = Some pet' \<and>
           Pet.shelterId pet' = Pet.shelterId pet"
proof (cases "btree_get (PetsStorage st) (UpdatePetPayload.petId payload)")
  case None
  with old show ?thesis by (simp add: updatePetInfo_def)
next
  case (Some pet0)
  from wf have "keysOk Pet.id (PetsStorage st)" by (simp add: storesOk_def)
  from keysOk_get [OF this Some] have "Pet.id pet0 = UpdatePetPayload.petId payload" .
  with old Some show ?thesis
    by (auto simp: updatePetInfo_def Let_def btree_get_insert)
qed

text \<open>
  C6. In a state where every record is stored under its own id and every shelter's pet
  list is in order (both hold in every reachable state), a call of any method with an
  identifier that is new to the stores leads to such a state again. A successful \<open>addPet\<close>
  returns a pet with the generated id, and the shelter stored under the payload's
  \<open>shelterId\<close> afterwards is the one stored before with that id appended, where it occurs
  once. After \<open>updatePetInfo\<close> every key of the pet store holds a pet with the
  \<open>shelterId\<close> it had before.
\<close>

theorem shelter_pet_lists_preserved:
  assumes "storesOk st" and "shelterPetsOk st" and "freshUuid e st"
  shows "storesOk (snd (Canister e m st)) \<and> shelterPetsOk (snd (Canister e m st)) \<and>
         (\<forall>payload pet st'. addPet e payload st = (Ok pet, st') \<longrightarrow>
            Pet.id pet = uuid e \<and>
            (\<exists>shelter.
               btree_get (SheltersStorage st) (PetPayload.shelterId payload) = Some shelter \<and>
               btree_get (SheltersStorage st') (PetPayload.shelterId payload)
                 = Some (shelter\<lparr>pets := pets shelter @ [uuid e]\<rparr>) \<and>
               count_list (pets shelter @ [uuid e]) (uuid e) = 1)) \<and>
         (\<forall>payload k pet. btree_get (PetsStorage st) k = Some pet \<longrightarrow>
            (\<exists>pet'. btree_get (PetsStorage (snd (updatePetInfo payload st))) k = Some pet' \<and>
               Pet.shelterId pet' = Pet.shelterId pet))"
proof (intro conjI allI impI)
  from assms(1) show "storesOk (snd (Canister e m st))"
    by (rule Canister_storesOk)
  from assms show "shelterPetsOk (snd (Canister e m st))"
    by (rule Canister_shelterPetsOk)
next
  fix payload pet st'
  assume ok: "addPet e payload st = (Ok pet, st')"
  from addPet_Ok [OF ok] show "Pet.id pet = uuid e" by blast
  from addPet_Ok [OF ok] obtain shelter where
    s: "btree_get (SheltersStorage st) (PetPayload.shelterId payload) = Some shelter" and
    st': "st' = st\<lparr>PetsStorage := btree_insert (uuid e) pet (PetsStorage st),
                    SheltersStorage :=
                      btree_insert (Shelter.id shelter)
                        (shelter\<lparr>pets := pets shelter @ [uuid e]\<rparr>) (SheltersStorage st)\<rparr>"
    by blast
  from assms(1) have "keysOk Shelter.id (SheltersStorage st)" by (simp add: storesOk_def)
  from keysOk_get [OF this s] have k: "Shelter.id shelter = PetPayload.shelterId payload" .
  have after: "btree_get (SheltersStorage st') (PetPayload.shelterId payload)
                 = Some (shelter\<lparr>pets := pets shelter @ [uuid e]\<rparr>)"
    by (simp add: st' k btree_get_insert)
  from assms(3) have "btree_get (PetsStorage st) (uuid e) = None"
    by (simp add: freshUuid_def)
  with shelter_pets_in_order [OF assms(2) s] have "uuid e \<notin> set (pets shelter)"
    by (auto simp: list_all_iff petOfShelter_iff)
  then have "count_list (pets shelter @ [uuid e]) (uuid e) = 1"
    by (rule count_list_snoc_fresh)
  with s after show
    "\<exists>shelter.
       btree_get (SheltersStorage st) (PetPayload.shelterId payload) = Some shelter \<and>
       btree_get (SheltersStorage st') (PetPayload.shelterId payload)
         = Some (shelter\<lparr>pets := pets shelter @ [uuid e]\<rparr>) \<and>
       count_list (pets shelter @ [uuid e]) (uuid e) = 1"
    by blast
next
  fix payload k pet
  assume "btree_get (PetsStorage st) k = Some pet"
  with assms(1) show
    "\<exists>pet'. btree_get (PetsStorage (snd (updatePetInfo payload st))) k = Some pet' \<and>
       Pet.shelterId pet' = Pet.shelterId pet"
    by (rule updatePetInfo_shelterId)
qed

text \<open>
  Adding the pet \<open>p1\<close> to the shelter \<open>s1\<close>: the shelter's list becomes \<open>[p1]\<close>; a later
  patch of \<open>p1\<close> leaves it in \<open>s1\<close>.
\<close>

theorem shelter_pet_lists_preserved_witness:
  "storesOk (snd (Canister (envWith ''p1'') (AddPet rex) sheltered)) \<and>
   shelterPetsOk (snd (Canister (envWith ''p1'') (AddPet rex) sheltered)) \<and>
   fst (addPet (envWith ''p1'') rex sheltered) = Ok rexStored \<and>
   btree_get (SheltersStorage (snd (addPet (envWith ''p1'') rex sheltered))) (ascii ''s1'')
     = Some happyPawsStored \<and>
   map_option Pet.shelterId
     (btree_get (PetsStorage (snd (updatePetInfo healthPatch registered))) (ascii ''p1''))
     = Some (ascii ''s1'')"
proof -
  have wf: "storesOk sheltered"
    by (simp add: sheltered_def ops data storesOk_def keysOk_def)
  have ok: "shelterPetsOk sheltered"
    by (simp add: sheltered_def ops data shelterPetsOk_def)
  have fresh: "freshUuid (envWith ''p1'') sheltered"
    by (simp add: sheltered_def ops data)
  note T = shelter_pet_lists_preserved [OF wf ok fresh, of "AddPet rex"]
  from T have 1: "storesOk (snd (Canister (envWith ''p1'') (AddPet rex) sheltered))"
    and 2: "shelterPetsOk (snd (Canister (envWith ''p1'') (AddPet rex) sheltered))"
    by blast+
  have 3: "fst (addPet (envWith ''p1'') rex sheltered) = Ok rexStored"
    by (simp add: sheltered_def ops data)
  have 4: "btree_get (SheltersStorage (snd (addPet (envWith ''p1'') rex sheltered))) (ascii ''s1'')
             = Some happyPawsStored"
    by (simp add: sheltered_def ops data happyPawsStored_def)
  have wf': "storesOk registered"
    by (rule reachable_storesOk [OF registered_reachable])
  have ok': "shelterPetsOk registered"
    by (rule reachable_shelterPetsOk [OF registered_reachable])
  have fresh': "freshUuid (envWith ''zz'') registered"
    by (simp add: ops data)
  have p: "btree_get (PetsStorage registered) (ascii ''p1'') = Some rexStored"
    by (simp add: ops data)
  from shelter_pet_lists_preserved [OF wf' ok' fresh', of GetUserOwner] p
  obtain pet' where
    "btree_get (PetsStorage (snd (updatePetInfo healthPatch registered))) (ascii ''p1'') = Some pet'"
    "Pet.shelterId pet' = Pet.shelterId rexStored"
    by blast
  then have 5: "map_option Pet.shelterId
      (btree_get (PetsStorage (snd (updatePetInfo healthPatch registered))) (ascii ''p1''))
      = Some (ascii ''s1'')"
    by (simp add: rexStored_def)
  from 1 2 3 4 5 show ?thesis by blast
qed

section \<open>Updates validate the merged record\<close>

lemma blank_trims_to_nothing: "length (trim (ascii ''   '')) = 0"
  by code_simp

lemma healthPatch_valid:
  "validatePetPayload
     (petFields (rexStored\<lparr>Pet.healthStatus := UpdatePetPayload.healthStatus healthPatch,
                            Pet.age := UpdatePetPayload.age healthPatch\<rparr>))"
  by code_simp

lemma contactPatch_valid:
  "validateShelterPayload
     (shelterFields
        (happyPawsStored\<lparr>Shelter.id := UpdateShelterPayload.id contactPatch,
                          Shelter.phoneNumber := UpdateShelterPayload.phoneNumber contactPatch,
                          Shelter.email := UpdateShelterPayload.email contactPatch\<rparr>))"
  by code_simp

lemma badEmail_invalid: "\<not> isValidEmail (UpdateShelterPayload.email badEmail)"
  by code_simp

lemma updatePetInfo_merged:
  assumes "btree_get (PetsStorage st) (UpdatePetPayload.petId payload) = Some pet"
  shows "updatePetInfo payload st =
           (if validatePetPayload
                 (petFields (pet\<lparr>Pet.healthStatus := UpdatePetPayload.healthStatus payload,
                                  Pet.age := UpdatePetPayload.age payload\<rparr>))
            then (Ok (pet\<lparr>Pet.healthStatus := UpdatePetPayload.healthStatus payload,
                          Pet.age := UpdatePetPayload.age payload\<rparr>),
                  st\<lparr>PetsStorage :=
                       btree_insert (Pet.id pet)
                         (pet\<lparr>Pet.healthStatus := UpdatePetPayload.healthStatus payload,
                              Pet.age := UpdatePetPayload.age payload\<rparr>) (PetsStorage st)\<rparr>)
            else (Err (ValidationError
                    (ascii ''Invalid pet payload. Please check all fields.'')), st))"
  using assms by (simp add: updatePetInfo_def Let_def)

lemma updateShelterInfo_merged:
  assumes "btree_get (SheltersStorage st) (UpdateShelterPayload.id payload) = Some shelter"
  shows "updateShelterInfo payload st =
           (if validateShelterPayload
                 (shelterFields
                    (shelter\<lparr>Shelter.id := UpdateShelterPayload.id payload,
                             Shelter.phoneNumber := UpdateShelterPayload.phoneNumber payload,
                             Shelter.email := UpdateShelterPayload.email payload\<rparr>))
            then (Ok (shelter\<lparr>Shelter.id := UpdateShelterPayload.id payload,
                              Shelter.phoneNumber := UpdateShelterPayload.phoneNumber payload,
                              Shelter.email := UpdateShelterPayload.email payload\<rparr>),
                  st\<lparr>SheltersStorage :=
                       btree_insert (Shelter.id shelter)
                         (shelter\<lparr>Shelter.id := UpdateShelterPayload.id payload,
                                  Shelter.phoneNumber := UpdateShelterPayload.phoneNumber payload,
                                  Shelter.email := UpdateShelterPayload.email payload\<rparr>)
                         (SheltersStorage st)\<rparr>)
            else (Err (ValidationError
                    (ascii ''Invalid shelter payload. Please check all fields.'')), st))"
  using assms by (simp add: updateShelterInfo_def Let_def)

text \<open>
  C7. When \<open>updatePetInfo\<close> finds the pet, it validates the pet with the patch's
  \<open>healthStatus\<close> and \<open>age\<close> written over its own: if that record is not valid (as when
  the patch's \<open>healthStatus\<close> is empty after trimming) the reply is \<open>ValidationError\<close> and
  the state is unchanged; if it is valid, that record is the reply and is stored under
  the pet's id, the rest of the state being as before. The same holds of
  \<open>updateShelterInfo\<close> with the patch's \<open>id\<close>, \<open>phoneNumber\<close> and \<open>email\<close> (and the
  merged record is not valid when the patch's \<open>email\<close> is not an email address).
\<close>

theorem updates_validate_merged_record:
  "(\<forall>pet. btree_get (PetsStorage st) (UpdatePetPayload.petId pp) = Some pet \<longrightarrow>
      (\<not> validatePetPayload
            (petFields (pet\<lparr>Pet.healthStatus := UpdatePetPayload.healthStatus pp,
                             Pet.age := UpdatePetPayload.age pp\<rparr>)) \<longrightarrow>
         updatePetInfo pp st
           = (Err (ValidationError (ascii ''Invalid pet payload. Please check all fields.'')),
              st)) \<and>
      (validatePetPayload
         (petFields (pet\<lparr>Pet.healthStatus := UpdatePetPayload.healthStatus pp,
                          Pet.age := UpdatePetPayload.age pp\<rparr>)) \<longrightarrow>
         updatePetInfo pp st
           = (Ok (pet\<lparr>Pet.healthStatus := UpdatePetPayload.healthStatus pp,
                      Pet.age := UpdatePetPayload.age pp\<rparr>),
              st\<lparr>PetsStorage :=
                   btree_insert (Pet.id pet)
                     (pet\<lparr>Pet.healthStatus := UpdatePetPayload.healthStatus pp,
                          Pet.age := UpdatePetPayload.age pp\<rparr>) (PetsStorage st)\<rparr>) \<and>
         btree_get (PetsStorage (snd (updatePetInfo pp st))) (Pet.id pet)
           = Some (pet\<lparr>Pet.healthStatus := UpdatePetPayload.healthStatus pp,
                        Pet.age := UpdatePetPayload.age pp\<rparr>)) \<and>
      (length (trim (UpdatePetPayload.healthStatus pp)) = 0 \<longrightarrow>
         updatePetInfo pp st
           = (Err (ValidationError (ascii ''Invalid pet payload. Please check all fields.'')),
              st))) \<and>
   (\<forall>shelter. btree_get (SheltersStorage st) (UpdateShelterPayload.id sp) = Some shelter \<longrightarrow>
      (\<not> validateShelterPayload
            (shelterFields
               (shelter\<lparr>Shelter.id := UpdateShelterPayload.id sp,
                        Shelter.phoneNumber := UpdateShelterPayload.phoneNumber sp,
                        Shelter.email := UpdateShelterPayload.email sp\<rparr>)) \<longrightarrow>
         updateShelterInfo sp st
           = (Err (ValidationError (ascii ''Invalid shelter payload. Please check all fields.'')),
              st)) \<and>
      (validateShelterPayload
         (shelterFields
            (shelter\<lparr>Shelter.id := UpdateShelterPayload.id sp,
                     Shelter.phoneNumber := UpdateShelterPayload.phoneNumber sp,
                     Shelter.email := UpdateShelterPayload.email sp\<rparr>)) \<longrightarrow>
         updateShelterInfo sp st
           = (Ok (shelter\<lparr>Shelter.id := UpdateShelterPayload.id sp,
                          Shelter.phoneNumber := UpdateShelterPayload.phoneNumber sp,
                          Shelter.email := UpdateShelterPayload.email sp\<rparr>),
              st\<lparr>SheltersStorage :=
                   btree_insert (Shelter.id shelter)
                     (shelter\<lparr>Shelter.id := UpdateShelterPayload.id sp,
                              Shelter.phoneNumber := UpdateShelterPayload.phoneNumber sp,
                              Shelter.email := UpdateShelterPayload.email sp\<rparr>)
                     (SheltersStorage st)\<rparr>) \<and>
         btree_get (SheltersStorage (snd (updateShelterInfo sp st))) (Shelter.id shelter)
           = Some (shelter\<lparr>Shelter.id := UpdateShelterPayload.id sp,
                            Shelter.phoneNumber := UpdateShelterPayload.phoneNumber sp,
                            Shelter.email := UpdateShelterPayload.email sp\<rparr>)) \<and>
      (\<not> isValidEmail (UpdateShelterPayload.email sp) \<longrightarrow>
         updateShelterInfo sp st
           = (Err (ValidationError (ascii ''Invalid shelter payload. Please check all fields.'')),
              st)))"
proof (intro conjI allI impI)
  fix pet
  assume p: "btree_get (PetsStorage st) (UpdatePetPayload.petId pp) = Some pet"
  let ?merged = "pet\<lparr>Pet.healthStatus := UpdatePetPayload.healthStatus pp,
                     Pet.age := UpdatePetPayload.age pp\<rparr>"
  note run = updatePetInfo_merged [OF p]
  {
    assume "\<not> validatePetPayload (petFields ?merged)"
    with run show "updatePetInfo pp st
        = (Err (ValidationError (ascii ''Invalid pet payload. Please check all fields.'')), st)"
      by simp
  }
  {
    assume v: "validatePetPayload (petFields ?merged)"
    with run show "updatePetInfo pp st
        = (Ok ?merged,
           st\<lparr>PetsStorage := btree_insert (Pet.id pet) ?merged (PetsStorage st)\<rparr>)"
      by simp
    from run v show
      "btree_get (PetsStorage (snd (updatePetInfo pp st))) (Pet.id pet) = Some ?merged"
      by (simp add: btree_get_insert)
  }
  {
    assume "length (trim (UpdatePetPayload.healthStatus pp)) = 0"
    then have "\<not> validatePetPayload (petFields ?merged)"
      by (simp add: validatePetPayload_def petFields_def)
    with run show "updatePetInfo pp st
        = (Err (ValidationError (ascii ''Invalid pet payload. Please check all fields.'')), st)"
      by simp
  }
next
  fix shelter
  assume s: "btree_get (SheltersStorage st) (UpdateShelterPayload.id sp) = Some shelter"
  let ?merged = "shelter\<lparr>Shelter.id := UpdateShelterPayload.id sp,
                         Shelter.phoneNumber := UpdateShelterPayload.phoneNumber sp,
                         Shelter.email := UpdateShelterPayload.email sp\<rparr>"
  note run = updateShelterInfo_merged [OF s]
  {
    assume "\<not> validateShelterPayload (shelterFields ?merged)"
    with run show "updateShelterInfo sp st
        = (Err (ValidationError (ascii ''Invalid shelter payload. Please check all fields.'')),
           st)"
      by simp
  }
  {
    assume v: "validateShelterPayload (shelterFields ?merged)"
    with run show "updateShelterInfo sp st
        = (Ok ?merged,
           st\<lparr>SheltersStorage :=
                btree_insert (Shelter.id shelter) ?merged (SheltersStorage st)\<rparr>)"
      by simp
    from run v show
      "btree_get (SheltersStorage (snd (updateShelterInfo sp st))) (Shelter.id shelter)
         = Some ?merged"
      by (simp add: btree_get_insert)
  }
  {
    assume "\<not> isValidEmail (UpdateShelterPayload.email sp)"
    then have "\<not> validateShelterPayload (shelterFields ?merged)"
      by (simp add: validateShelterPayload_def shelterFields_def)
    with run show "updateShelterInfo sp st
        = (Err (ValidationError (ascii ''Invalid shelter payload. Please check all fields.'')),
           st)"
      by simp
  }
qed

text \<open>
  The pet \<open>p1\<close> and the shelter \<open>s1\<close> of the registered state: a patch with a blank
  health status and a patch with a malformed email are rejected and change nothing;
  the acceptable patches are stored.
\<close>

theorem updates_validate_merged_record_witness:
  "updatePetInfo blankHealth registered
     = (Err (ValidationError (ascii ''Invalid pet payload. Please check all fields.'')),
        registered) \<and>
   btree_get (PetsStorage (snd (updatePetInfo healthPatch registered))) (ascii ''p1'')
     = Some (rexStored\<lparr>Pet.healthStatus := ascii ''vaccinated'', Pet.age := ascii ''4''\<rparr>) \<and>
   updateShelterInfo badEmail registered
     = (Err (ValidationError (ascii ''Invalid shelter payload. Please check all fields.'')),
        registered) \<and>
   btree_get (SheltersStorage (snd (updateShelterInfo contactPatch registered))) (ascii ''s1'')
     = Some (happyPawsStored\<lparr>Shelter.phoneNumber := ascii ''0722222222'',
                              Shelter.email := ascii ''new@paws.org''\<rparr>)"
proof -
  have p: "btree_get (PetsStorage registered) (UpdatePetPayload.petId blankHealth)
             = Some rexStored"
    by (simp add: ops data blankHealth_def)
  have p': "btree_get (PetsStorage registered) (UpdatePetPayload.petId healthPatch)
              = Some rexStored"
    by (simp add: ops data healthPatch_def)
  have s: "btree_get (SheltersStorage registered) (UpdateShelterPayload.id badEmail)
             = Some happyPawsStored"
    by (simp add: ops data badEmail_def happyPawsStored_def)
  have s': "btree_get (SheltersStorage registered) (UpdateShelterPayload.id contactPatch)
              = Some happyPawsStored"
    by (simp add: ops data contactPatch_def happyPawsStored_def)
  have blank: "length (trim (UpdatePetPayload.healthStatus blankHealth)) = 0"
    by (simp add: blankHealth_def blank_trims_to_nothing)
  from updates_validate_merged_record [of registered blankHealth badEmail]
    p s blank badEmail_invalid
  have 1: "updatePetInfo blankHealth registered
             = (Err (ValidationError (ascii ''Invalid pet payload. Please check all fields.'')),
                registered)"
    and 3: "updateShelterInfo badEmail registered
             = (Err (ValidationError
                  (ascii ''Invalid shelter payload. Please check all fields.'')), registered)"
    by blast+
  from updates_validate_merged_record [of registered healthPatch contactPatch]
    p' s' healthPatch_valid contactPatch_valid
  have "btree_get (PetsStorage (snd (updatePetInfo healthPatch registered))) (Pet.id rexStored)
          = Some (rexStored\<lparr>Pet.healthStatus := UpdatePetPayload.healthStatus healthPatch,
                             Pet.age := UpdatePetPayload.age healthPatch\<rparr>)"
    and "btree_get (SheltersStorage (snd (updateShelterInfo contactPatch registered)))
           (Shelter.id happyPawsStored)
          = Some (happyPawsStored\<lparr>Shelter.id := UpdateShelterPayload.id contactPatch,
                    Shelter.phoneNumber := UpdateShelterPayload.phoneNumber contactPatch,
                    Shelter.email := UpdateShelterPayload.email contactPatch\<rparr>)"
    by blast+
  then have 2: "btree_get (PetsStorage (snd (updatePetInfo healthPatch registered))) (ascii ''p1'')
      = Some (rexStored\<lparr>Pet.healthStatus := ascii ''vaccinated'', Pet.age := ascii ''4''\<rparr>)"
    and 4: "btree_get (SheltersStorage (snd (updateShelterInfo contactPatch registered)))
        (ascii ''s1'')
      = Some (happyPawsStored\<lparr>Shelter.phoneNumber := ascii ''0722222222'',
                                Shelter.email := ascii ''new@paws.org''\<rparr>)"
    by (simp_all add: rexStored_def happyPawsStored_def healthPatch_def contactPatch_def)
  from 1 2 3 4 show ?thesis by blast
qed

section \<open>Queries over the pets\<close>

lemma values_iff:
  "distinct (map fst m) \<Longrightarrow> v \<in> set (btree_values m) \<longleftrightarrow> (\<exists>k. btree_get m k = Some v)"
  by (auto simp: btree_values_def btree_get_def intro: rev_image_eqI)

lemma filter_values_count:
  assumes "distinct (map fst m)"
  shows "length (filter P (btree_values m)) = card {k. \<exists>v. btree_get m k = Some v \<and> P v}"
proof -
  let ?kept = "filter (\<lambda>kv. P (snd kv)) m"
  from assms have "{k. \<exists>v. btree_get m k = Some v \<and> P v} = set (map fst ?kept)"
    by (auto simp: btree_get_def intro: rev_image_eqI)
  moreover from assms have "distinct (map fst ?kept)"
    by (rule distinct_map_filter)
  ultimately have "card {k. \<exists>v. btree_get m k = Some v \<and> P v} = length (map fst ?kept)"
    by (simp only: distinct_card)
  also have "\<dots> = length (filter P (btree_values m))"
    by (simp add: btree_values_def filter_map comp_def)
  finally show ?thesis by simp
qed

lemma lower_dOG: "asciiLower (ascii ''dOG'') = ascii ''dog''"
  by (simp add: asciiLower_def ascii_def)

lemma lower_Dog: "asciiLower (ascii ''Dog'') = ascii ''dog''"
  by (simp add: asciiLower_def ascii_def)

lemma lower_Cat: "asciiLower (ascii ''Cat'') = ascii ''cat''"
  by (simp add: asciiLower_def ascii_def)

lemma lower_Do: "asciiLower (ascii ''Do'') = ascii ''do''"
  by (simp add: asciiLower_def ascii_def)

lemmas lower = lower_dOG lower_Dog lower_Cat lower_Do

text \<open>
  C10. A pet is in the result of \<open>getPetsNotAdopted\<close> exactly when it is a value of the
  pet store with status \<open>notAdopted\<close>, and in the result of \<open>searchPetsBySpecies\<close>
  exactly when it is a value of the pet store whose lower-cased species equals the
  lower-cased query, whatever function the host's \<open>toLowerCase\<close> is. When the keys of the
  store are distinct (as in every reachable state), the values are the pets that some
  key holds, and each result has one entry for each key whose pet qualifies.
\<close>

theorem pet_queries_exact:
  "(\<forall>pet. pet \<in> set (getPetsNotAdopted st) \<longleftrightarrow>
      pet \<in> set (btree_values (PetsStorage st)) \<and> Pet.status pet = ascii ''notAdopted'') \<and>
   (\<forall>pet. pet \<in> set (searchPetsBySpecies toLowerCase species' st) \<longleftrightarrow>
      pet \<in> set (btree_values (PetsStorage st)) \<and>
      toLowerCase (Pet.species pet) = toLowerCase species') \<and>
   (distinct (map fst (PetsStorage st)) \<longrightarrow>
      (\<forall>pet. pet \<in> set (getPetsNotAdopted st) \<longleftrightarrow>
         (\<exists>k. btree_get (PetsStorage st) k = Some pet) \<and>
         Pet.status pet = ascii ''notAdopted'') \<and>
      length (getPetsNotAdopted st)
        = card {k. \<exists>pet. btree_get (PetsStorage st) k = Some pet \<and>
                     Pet.status pet = ascii ''notAdopted''} \<and>
      (\<forall>pet. pet \<in> set (searchPetsBySpecies toLowerCase species' st) \<longleftrightarrow>
         (\<exists>k. btree_get (PetsStorage st) k = Some pet) \<and>
         toLowerCase (Pet.species pet) = toLowerCase species') \<and>
      length (searchPetsBySpecies toLowerCase species' st)
        = card {k. \<exists>pet. btree_get (PetsStorage st) k = Some pet \<and>
                     toLowerCase (Pet.species pet) = toLowerCase species'})"
proof (intro conjI allI impI)
  fix pet
  show "pet \<in> set (getPetsNotAdopted st) \<longleftrightarrow>
      pet \<in> set (btree_values (PetsStorage st)) \<and> Pet.status pet = ascii ''notAdopted''"
    by (simp add: getPetsNotAdopted_def)
  show "pet \<in> set (searchPetsBySpecies toLowerCase species' st) \<longleftrightarrow>
      pet \<in> set (btree_values (PetsStorage st)) \<and>
      toLowerCase (Pet.species pet) = toLowerCase species'"
    by (simp add: searchPetsBySpecies_def)
next
  fix pet
  assume d: "distinct (map fst (PetsStorage st))"
  show "pet \<in> set (getPetsNotAdopted st) \<longleftrightarrow>
      (\<exists>k. btree_get (PetsStorage st) k = Some pet) \<and> Pet.status pet = ascii ''notAdopted''"
    by (simp add: getPetsNotAdopted_def values_iff [OF d])
  show "pet \<in> set (searchPetsBySpecies toLowerCase species' st) \<longleftrightarrow>
      (\<exists>k. btree_get (PetsStorage st) k = Some pet) \<and>
      toLowerCase (Pet.species pet) = toLowerCase species'"
    by (simp add: searchPetsBySpecies_def values_iff [OF d])
next
  assume d: "distinct (map fst (PetsStorage st))"
  show "length (getPetsNotAdopted st)
      = card {k. \<exists>pet. btree_get (PetsStorage st) k = Some pet \<and>
                   Pet.status pet = ascii ''notAdopted''}"
    unfolding getPetsNotAdopted_def by (rule filter_values_count [OF d])
  show "length (searchPetsBySpecies toLowerCase species' st)
      = card {k. \<exists>pet. btree_get (PetsStorage st) k = Some pet \<and>
                   toLowerCase (Pet.species pet) = toLowerCase species'}"
    unfolding searchPetsBySpecies_def by (rule filter_values_count [OF d])
qed

text \<open>
  With the dog \<open>p1\<close> adopted and the cat \<open>p2\<close> not: the pets not adopted are the cat;
  the query \<open>dOG\<close> finds the dog, and the query \<open>Do\<close>, a part of \<open>Dog\<close>, finds nothing.
\<close>

theorem pet_queries_exact_witness:
  "getPetsNotAdopted twoPets = [tomStored] \<and>
   rexStored\<lparr>Pet.status := ascii ''adopted''\<rparr> \<notin> set (getPetsNotAdopted twoPets) \<and>
   searchPetsBySpecies asciiLower (ascii ''dOG'') twoPets
     = [rexStored\<lparr>Pet.status := ascii ''adopted''\<rparr>] \<and>
   searchPetsBySpecies asciiLower (ascii ''Do'') twoPets = [] \<and>
   tomStored \<in> set (getPetsNotAdopted twoPets) \<and>
   rexStored\<lparr>Pet.status := ascii ''adopted''\<rparr>
     \<in> set (searchPetsBySpecies asciiLower (ascii ''dOG'') twoPets)"
proof -
  let ?rex = "rexStored\<lparr>Pet.status := ascii ''adopted''\<rparr>"
  have tom_valid: "validatePetPayload tom"
    by code_simp
  note more = twoPets_def tom_def tomStored_def tom_valid [unfolded tom_def]
  have d: "distinct (map fst (PetsStorage twoPets))"
    by (simp add: ops data more)
  have p1: "btree_get (PetsStorage twoPets) (ascii ''p1'') = Some ?rex"
    by (simp add: ops data more)
  have p2: "btree_get (PetsStorage twoPets) (ascii ''p2'') = Some tomStored"
    by (simp add: ops data more)
  have free: "Pet.status tomStored = ascii ''notAdopted''"
    by (simp add: tomStored_def)
  have dog: "asciiLower (Pet.species ?rex) = asciiLower (ascii ''dOG'')"
    by (simp add: rexStored_def lower)
  from pet_queries_exact [of twoPets asciiLower "ascii ''dOG''"] d p2 free
  have 5: "tomStored \<in> set (getPetsNotAdopted twoPets)"
    by blast
  from pet_queries_exact [of twoPets asciiLower "ascii ''dOG''"] d p1 dog
  have 6: "?rex \<in> set (searchPetsBySpecies asciiLower (ascii ''dOG'') twoPets)"
    by blast
  have "Pet.status ?rex \<noteq> ascii ''notAdopted''"
    by (simp add: ascii_eq_iff)
  with pet_queries_exact [of twoPets asciiLower "ascii ''dOG''"]
  have 2: "?rex \<notin> set (getPetsNotAdopted twoPets)"
    by blast
  have 1: "getPetsNotAdopted twoPets = [tomStored]"
    by (simp add: getPetsNotAdopted_def ops data more)
  have 3: "searchPetsBySpecies asciiLower (ascii ''dOG'') twoPets = [?rex]"
    by (simp add: searchPetsBySpecies_def ops data more lower)
  have 4: "searchPetsBySpecies asciiLower (ascii ''Do'') twoPets = []"
    by (simp add: searchPetsBySpecies_def ops data more lower)
  from 1 2 3 4 5 6 show ?thesis by blast
qed

section \<open>Two requests for one pet, in general\<close>

text \<open>
  What the example of C1 shows holds for any state, any two valid requests for one pet
  that is not adopted and any two different generated identifiers: both requests
  succeed, and both records are stored, pending, with the id of that pet.
\<close>

lemma filing_twice_both_pending:
  assumes v1: "validateAdoptionPayload p" and v2: "validateAdoptionPayload q"
    and same: "AdoptionPayload.petId q = AdoptionPayload.petId p"
    and u1: "btree_get (UsersStorage st) (AdoptionPayload.userId p) = Some user1"
    and u2: "btree_get (UsersStorage st) (AdoptionPayload.userId q) = Some user2"
    and pet: "btree_get (PetsStorage st) (AdoptionPayload.petId p) = Some pet"
    and free: "Pet.status pet = ascii ''notAdopted''"
    and ids: "uuid e1 \<noteq> uuid e2"
  shows "\<exists>r1 st1 r2 st2.
           fileForAdoption e1 p st = (Ok r1, st1) \<and>
           fileForAdoption e2 q st1 = (Ok r2, st2) \<and>
           btree_get (AdoptionsStorage st2) (uuid e1) = Some r1 \<and>
           btree_get (AdoptionsStorage st2) (uuid e2) = Some r2 \<and>
           AdoptionRecords.status r1 = ascii ''pending'' \<and>
           AdoptionRecords.status r2 = ascii ''pending'' \<and>
           AdoptionRecords.petId r1 = Pet.id pet \<and>
           AdoptionRecords.petId r2 = Pet.id pet"
proof -
  from fileForAdoption_available [OF v1 u1 pet free, of e1] obtain r1 where
    run1: "fileForAdoption e1 p st
             = (Ok r1,
                st\<lparr>UsersStorage :=
                     btree_insert (User.id user1)
                       (user1\<lparr>application := application user1 @ [uuid e1]\<rparr>) (UsersStorage st),
                   AdoptionsStorage := btree_insert (uuid e1) r1 (AdoptionsStorage st)\<rparr>)" and
    r1: "AdoptionRecords.status r1 = ascii ''pending''" "AdoptionRecords.petId r1 = Pet.id pet"
    by blast
  let ?st1 = "st\<lparr>UsersStorage :=
                    btree_insert (User.id user1)
                      (user1\<lparr>application := application user1 @ [uuid e1]\<rparr>) (UsersStorage st),
                  AdoptionsStorage := btree_insert (uuid e1) r1 (AdoptionsStorage st)\<rparr>"
  from u2 obtain user2' where
    u2': "btree_get (UsersStorage ?st1) (AdoptionPayload.userId q) = Some user2'"
    by (cases "AdoptionPayload.userId q = User.id user1") (simp_all add: btree_get_insert)
  from pet same have pet': "btree_get (PetsStorage ?st1) (AdoptionPayload.petId q) = Some pet"
    by simp
  from fileForAdoption_available [OF v2 u2' pet' free, of e2] obtain r2 where
    run2: "fileForAdoption e2 q ?st1
             = (Ok r2,
                ?st1\<lparr>UsersStorage :=
                       btree_insert (User.id user2')
                         (user2'\<lparr>application := application user2' @ [uuid e2]\<rparr>)
                         (UsersStorage ?st1),
                     AdoptionsStorage := btree_insert (uuid e2) r2 (AdoptionsStorage ?st1)\<rparr>)" and
    r2: "AdoptionRecords.status r2 = ascii ''pending''" "AdoptionRecords.petId r2 = Pet.id pet"
    by blast
  let ?st2 = "?st1\<lparr>UsersStorage :=
                      btree_insert (User.id user2')
                        (user2'\<lparr>application := application user2' @ [uuid e2]\<rparr>)
                        (UsersStorage ?st1),
                    AdoptionsStorage := btree_insert (uuid e2) r2 (AdoptionsStorage ?st1)\<rparr>"
  from ids have "btree_get (AdoptionsStorage ?st2) (uuid e1) = Some r1"
    and "btree_get (AdoptionsStorage ?st2) (uuid e2) = Some r2"
    by (simp_all add: btree_get_insert)
  with run1 run2 r1 r2 show ?thesis by blast
qed

end
